theory Spec2Isabelle
  imports Complex_Main "HOL-Library.Word"
begin

section \<open>The XKT format V1 parser (ParserV1.js)\<close>

text \<open>
  A shallow embedding of \<^verbatim>\<open>src/plugins/XKTLoaderPlugin/parsers/ParserV1.js\<close>: the closure
  \<^verbatim>\<open>decompressColor\<close> and the function \<^verbatim>\<open>load\<close>, which walks the entity and mesh offset
  tables of an inflated container and calls \<^verbatim>\<open>createMesh\<close> and \<^verbatim>\<open>createEntity\<close> on the
  performance model.
\<close>

subsection \<open>JavaScript values\<close>

text \<open>
  A JavaScript Number is either \<^verbatim>\<open>NaN\<close> or a number. Numbers are taken as exact reals: the
  rounding of a quotient to a double, and to a float when it is stored in a
  \<^verbatim>\<open>Float32Array\<close>, is left out of the model.
\<close>

datatype jsnum = NaN | Num real

text \<open>
  Reading a typed array (or an Array) beyond its length gives \<^verbatim>\<open>undefined\<close>, here \<open>None\<close>.
\<close>

definition typed_get :: "'a list \<Rightarrow> nat \<Rightarrow> 'a option" where
  "typed_get xs i = (if i < length xs then Some (xs ! i) else None)"

text \<open>
  \<^verbatim>\<open>TypedArray.prototype.subarray(begin, end)\<close> for arguments that are \<^verbatim>\<open>undefined\<close> or
  non-negative integers: an undefined begin is 0, an undefined end is the length, and both
  are clamped to the length. The view holds \<open>max (end - begin) 0\<close> elements. The views are
  only read, so a view is modelled by the elements it shows.
\<close>

definition subarray :: "'a list \<Rightarrow> nat option \<Rightarrow> nat option \<Rightarrow> 'a list" where
  "subarray xs b e =
     (let len = length xs;
          beginIndex = (case b of None \<Rightarrow> 0 | Some n \<Rightarrow> min n len);
          endIndex = (case e of None \<Rightarrow> len | Some n \<Rightarrow> min n len)
      in take (endIndex - beginIndex) (drop beginIndex xs))"

text \<open>An element of a \<^verbatim>\<open>Uint32Array\<close> used as an offset; \<open>None\<close> is \<^verbatim>\<open>undefined\<close>.\<close>

definition offset_get :: "32 word list \<Rightarrow> nat \<Rightarrow> nat option" where
  "offset_get xs i = map_option unat (typed_get xs i)"

text \<open>\<^verbatim>\<open>x / 255.0\<close> for an element \<open>x\<close> of a \<^verbatim>\<open>Uint8Array\<close>; \<^verbatim>\<open>undefined / 255.0\<close> is \<^verbatim>\<open>NaN\<close>.\<close>

definition div255 :: "8 word option \<Rightarrow> jsnum" where
  "div255 x = (case x of None \<Rightarrow> NaN | Some b \<Rightarrow> Num (real (unat b) / 255))"

text \<open>String conversion of a value that is a string or \<^verbatim>\<open>undefined\<close>, and of an index.\<close>

definition js_string :: "string option \<Rightarrow> string" where
  "js_string x = (case x of None \<Rightarrow> ''undefined'' | Some s \<Rightarrow> s)"

definition digit_char :: "nat \<Rightarrow> char" where
  "digit_char n = ''0123456789'' ! n"

function string_of_nat :: "nat \<Rightarrow> string" where
  "string_of_nat n =
     (if n < 10 then [digit_char n] else string_of_nat (n div 10) @ [digit_char (n mod 10)])"
  by pat_completeness auto
termination
  by (relation "measure (\<lambda>n. n)") auto

declare string_of_nat.simps [simp del]

text \<open>
  Objects are maps from property names to values. The only object that is written after
  its creation and shared between calls is the \<^verbatim>\<open>Float32Array\<close> of \<^verbatim>\<open>decompressColor\<close>; it
  lives in a heap and is passed around as a reference \<open>VRef\<close>.
\<close>

type_synonym addr = nat

datatype jsval =
    VUndefined
  | VStr string
  | VNum jsnum
  | VBool bool
  | VU16 "16 word list"
  | VI8 "8 word list"
  | VU32 "32 word list"
  | VF32 "real list"
  | VArray "real list"
  | VRef addr
  | VStrs "string list"

type_synonym jsobj = "string \<rightharpoonup> jsval"

text \<open>
  Modelled from the spec: \<^verbatim>\<open>utils.apply\<close> is imported from
  \<^verbatim>\<open>viewer/scene/utils.js\<close>, which is not among the sources. The specification calls the
  record construction a shallow merge of a defaults object and a literal-fields object,
  and names the precedence between the two an open question. The helper copies every
  property of its first argument onto its second argument and returns the second: a
  property of the first argument, here the defaults, replaces the property of the same
  name of the literal. \<^verbatim>\<open>load\<close> stores its mesh defaults under the names \<^verbatim>\<open>color\<close> and
  \<^verbatim>\<open>opacity\<close>, which the literal has as well; only under this precedence do these
  assignments have an effect.
\<close>

definition utils_apply :: "jsobj \<Rightarrow> jsobj \<Rightarrow> jsobj" where
  "utils_apply defaults literal = literal ++ defaults"

subsection \<open>The inputs of \<^verbatim>\<open>load\<close>\<close>

text \<open>
  The inflated container; \<open>entityIDs\<close> is the array of strings that \<^verbatim>\<open>JSON.parse\<close> gives.
\<close>

record inflatedData =
  positions :: "16 word list"
  normals :: "8 word list"
  indices :: "32 word list"
  edgeIndices :: "32 word list"
  meshPositions :: "32 word list"
  meshIndices :: "32 word list"
  meshEdgesIndices :: "32 word list"
  meshColors :: "8 word list"
  entityIDs :: "string list"
  entityMeshes :: "32 word list"
  entityIsObjects :: "8 word list"
  positionsDecodeMatrix :: "real list"

text \<open>
  \<open>mo_type\<close> is the property \<^verbatim>\<open>type\<close> of a meta object; \<open>metaObjects\<close> is
  \<^verbatim>\<open>viewer.metaScene.metaObjects\<close>.
\<close>

record metaObject =
  mo_type :: "string option"

record viewer =
  metaObjects :: "string \<rightharpoonup> metaObject"

record props =
  visible :: "bool option"
  pickable :: "bool option"
  colorize :: "real list option"
  opacity :: "real option"

text \<open>
  The type maps are given by the truthiness of their entries: \<open>m t\<close> holds when
  \<^verbatim>\<open>m[t]\<close> is truthy. \<open>None\<close> is an option that is not set.
\<close>

record options =
  excludeTypesMap :: "(string \<Rightarrow> bool) option"
  includeTypesMap :: "(string \<Rightarrow> bool) option"
  objectDefaults :: "(string \<rightharpoonup> props) option"
  excludeUnclassifiedObjects :: bool

subsection \<open>The state\<close>

datatype call = CreateMesh jsobj | CreateEntity jsobj

text \<open>
  The heap holds the float buffers; \<open>positionsCompression\<close> and \<open>normalsCompression\<close> are
  the two properties \<^verbatim>\<open>load\<close> sets on the performance model, and \<open>calls\<close> are the calls of
  \<^verbatim>\<open>createMesh\<close> and \<^verbatim>\<open>createEntity\<close> it has received, oldest first.
\<close>

record state =
  heap :: "addr \<Rightarrow> jsnum list"
  positionsCompression :: "string option"
  normalsCompression :: "string option"
  calls :: "call list"

subsection \<open>\<^verbatim>\<open>decompressColor\<close>\<close>

text \<open>
  \<^verbatim>\<open>color2\<close> is allocated once, when the module is loaded; \<open>color2\<close> is its address.
  Every call writes the three elements of that buffer and returns the buffer itself.
\<close>

definition color2 :: addr where
  "color2 = 0"

definition decompressColor :: "(addr \<Rightarrow> jsnum list) \<Rightarrow> 8 word list \<Rightarrow> addr \<times> (addr \<Rightarrow> jsnum list)" where
  "decompressColor h color =
     (let h0 = h(color2 := (h color2)[0 := div255 (typed_get color 0)]);
          h1 = h0(color2 := (h0 color2)[1 := div255 (typed_get color 1)]);
          h2 = h1(color2 := (h1 color2)[2 := div255 (typed_get color 2)])
      in (color2, h2))"

subsection \<open>\<^verbatim>\<open>load\<close>\<close>

text \<open>
  The truthiness of \<^verbatim>\<open>metaObject.type\<close>: a string that is not empty.
\<close>

definition type_truthy :: "metaObject \<Rightarrow> bool" where
  "type_truthy mo = (case mo_type mo of None \<Rightarrow> False | Some t \<Rightarrow> t \<noteq> [])"

text \<open>
  The first part of the body of the entity loop: the look-up of the meta object, the
  filters and the defaults. \<open>None\<close> is \<^verbatim>\<open>continue\<close>; otherwise the result is
  \<^verbatim>\<open>entityDefaults\<close> and \<^verbatim>\<open>meshDefaults\<close>.
\<close>

definition load_defaults :: "viewer \<Rightarrow> options \<Rightarrow> string option \<Rightarrow> (jsobj \<times> jsobj) option" where
  "load_defaults viewer options entityId =
     (case metaObjects viewer (js_string entityId) of
        Some metaObject \<Rightarrow>
          if (case excludeTypesMap options of None \<Rightarrow> False
              | Some ex \<Rightarrow> type_truthy metaObject \<and> ex (the (mo_type metaObject))) then None
          else if (case includeTypesMap options of None \<Rightarrow> False
              | Some inc \<Rightarrow> type_truthy metaObject \<and> \<not> inc (the (mo_type metaObject))) then None
          else
            (case (case objectDefaults options of None \<Rightarrow> None
                   | Some od \<Rightarrow>
                       od (if type_truthy metaObject then the (mo_type metaObject) else ''DEFAULT'')) of
               None \<Rightarrow> Some (Map.empty, Map.empty)
             | Some p \<Rightarrow>
                 let e0 = (Map.empty :: jsobj);
                     e1 = (if visible p = Some False then e0(''visible'' \<mapsto> VBool False) else e0);
                     e2 = (if pickable p = Some False then e1(''pickable'' \<mapsto> VBool False) else e1);
                     m0 = (Map.empty :: jsobj);
                     m1 = (case colorize p of None \<Rightarrow> m0 | Some c \<Rightarrow> m0(''color'' \<mapsto> VArray c));
                     m2 = (case opacity p of None \<Rightarrow> m1 | Some a \<Rightarrow> m1(''opacity'' \<mapsto> VNum (Num a)))
                 in Some (e2, m2))
      | None \<Rightarrow>
          if excludeUnclassifiedObjects options then None else Some (Map.empty, Map.empty))"

text \<open>The two locals \<^verbatim>\<open>color\<close> and \<^verbatim>\<open>opacity\<close> of the mesh loop.\<close>

definition load_color :: "(addr \<Rightarrow> jsnum list) \<Rightarrow> inflatedData \<Rightarrow> nat \<Rightarrow> addr \<times> (addr \<Rightarrow> jsnum list)" where
  "load_color h d j =
     decompressColor h (subarray (meshColors d) (Some (j * 4)) (Some (j * 4 + 3)))"

definition load_opacity :: "inflatedData \<Rightarrow> nat \<Rightarrow> jsnum" where
  "load_opacity d j = div255 (typed_get (meshColors d) (j * 4 + 3))"

text \<open>The object literal that is merged with \<^verbatim>\<open>meshDefaults\<close> and given to \<^verbatim>\<open>createMesh\<close>.\<close>

definition mesh_literal :: "inflatedData \<Rightarrow> string \<Rightarrow> nat \<Rightarrow> addr \<Rightarrow> jsnum \<Rightarrow> jsobj" where
  "mesh_literal d meshId j color opac =
     (let numMeshes = length (meshPositions d);
          lastMesh = (int j = int numMeshes - 1)
      in [ ''id'' \<mapsto> VStr meshId,
           ''primitive'' \<mapsto> VStr ''triangles'',
           ''positions'' \<mapsto> VU16 (subarray (positions d) (offset_get (meshPositions d) j)
              (if lastMesh then Some (length (positions d)) else offset_get (meshPositions d) (j + 1))),
           ''normals'' \<mapsto> VI8 (subarray (normals d) (offset_get (meshPositions d) j)
              (if lastMesh then Some (length (positions d)) else offset_get (meshPositions d) (j + 1))),
           ''indices'' \<mapsto> VU32 (subarray (indices d) (offset_get (meshIndices d) j)
              (if lastMesh then Some (length (indices d)) else offset_get (meshIndices d) (j + 1))),
           ''edgeIndices'' \<mapsto> VU32 (subarray (edgeIndices d) (offset_get (meshEdgesIndices d) j)
              (if lastMesh then Some (length (edgeIndices d)) else offset_get (meshEdgesIndices d) (j + 1))),
           ''positionsDecodeMatrix'' \<mapsto> VF32 (positionsDecodeMatrix d),
           ''color'' \<mapsto> VRef color,
           ''opacity'' \<mapsto> VNum opac ])"

text \<open>The local \<^verbatim>\<open>meshId\<close>: \<^verbatim>\<open>entityId + ".mesh." + j\<close>.\<close>

definition mesh_id :: "string option \<Rightarrow> nat \<Rightarrow> string" where
  "mesh_id entityId j = js_string entityId @ ''.mesh.'' @ string_of_nat j"

text \<open>
  The body of the mesh loop, on the state and the array \<^verbatim>\<open>meshIds\<close>.
\<close>

definition load_mesh :: "inflatedData \<Rightarrow> string option \<Rightarrow> jsobj \<Rightarrow> nat \<Rightarrow> state \<times> string list \<Rightarrow> state \<times> string list" where
  "load_mesh d entityId meshDefaults j acc =
     (let s = fst acc;
          meshIds = snd acc;
          meshId = mesh_id entityId j;
          (color, h) = load_color (heap s) d j;
          opac = load_opacity d j;
          cfg = utils_apply meshDefaults (mesh_literal d meshId j color opac)
      in (s\<lparr>heap := h, calls := calls s @ [CreateMesh cfg]\<rparr>, meshIds @ [meshId]))"

function load_meshes :: "inflatedData \<Rightarrow> string option \<Rightarrow> jsobj \<Rightarrow> nat \<Rightarrow> nat \<Rightarrow> state \<times> string list \<Rightarrow> state \<times> string list" where
  "load_meshes d entityId meshDefaults j jlen acc =
     (if j < jlen
      then load_meshes d entityId meshDefaults (j + 1) jlen (load_mesh d entityId meshDefaults j acc)
      else acc)"
  by pat_completeness auto
termination
  by (relation "measure (\<lambda>(d, entityId, meshDefaults, j, jlen, acc). jlen - j)") auto

declare load_meshes.simps [simp del]

text \<open>
  The bounds of the mesh loop of entity \<open>i\<close>. A bound that is \<^verbatim>\<open>undefined\<close> makes
  \<^verbatim>\<open>j < jlen\<close> false, so the loop does not run.
\<close>

definition mesh_begin :: "inflatedData \<Rightarrow> nat \<Rightarrow> nat option" where
  "mesh_begin d i = offset_get (entityMeshes d) i"

definition mesh_jlen :: "inflatedData \<Rightarrow> nat \<Rightarrow> nat option" where
  "mesh_jlen d i =
     (let numEntities = length (entityMeshes d);
          lastEntity = (int i = int numEntities - 1)
      in if lastEntity then Some (length (entityMeshes d)) else offset_get (entityMeshes d) (i + 1))"

text \<open>The object literal that is merged with \<^verbatim>\<open>entityDefaults\<close> and given to \<^verbatim>\<open>createEntity\<close>.\<close>

definition entity_literal :: "inflatedData \<Rightarrow> string option \<Rightarrow> nat \<Rightarrow> string list \<Rightarrow> jsobj" where
  "entity_literal d entityId i meshIds =
     [ ''id'' \<mapsto> (case entityId of None \<Rightarrow> VUndefined | Some s \<Rightarrow> VStr s),
       ''isObject'' \<mapsto> VBool (typed_get (entityIsObjects d) i = Some 1),
       ''meshIds'' \<mapsto> VStrs meshIds ]"

text \<open>The body of the entity loop.\<close>

definition load_entity :: "viewer \<Rightarrow> options \<Rightarrow> inflatedData \<Rightarrow> nat \<Rightarrow> state \<Rightarrow> state" where
  "load_entity viewer options d i s =
     (let entityId = typed_get (entityIDs d) i
      in case load_defaults viewer options entityId of
           None \<Rightarrow> s
         | Some (entityDefaults, meshDefaults) \<Rightarrow>
             let (s', meshIds) =
                   (case (mesh_begin d i, mesh_jlen d i) of
                      (Some j, Some jlen) \<Rightarrow> load_meshes d entityId meshDefaults j jlen (s, [])
                    | _ \<Rightarrow> (s, []))
             in s'\<lparr>calls := calls s' @
                    [CreateEntity (utils_apply entityDefaults (entity_literal d entityId i meshIds))]\<rparr>)"

function load_entities :: "viewer \<Rightarrow> options \<Rightarrow> inflatedData \<Rightarrow> nat \<Rightarrow> state \<Rightarrow> state" where
  "load_entities viewer options d i s =
     (if i < length (entityMeshes d)
      then load_entities viewer options d (i + 1) (load_entity viewer options d i s)
      else s)"
  by pat_completeness auto
termination
  by (relation "measure (\<lambda>(viewer, options, d, i, s). length (entityMeshes d) - i)") auto

declare load_entities.simps [simp del]

definition load :: "viewer \<Rightarrow> options \<Rightarrow> inflatedData \<Rightarrow> state \<Rightarrow> state" where
  "load viewer options d s =
     load_entities viewer options d 0
       (s\<lparr>positionsCompression := Some ''precompressed'',
          normalsCompression := Some ''precompressed''\<rparr>)"

subsection \<open>The calls of a decode, written out\<close>

text \<open>
  The record that \<^verbatim>\<open>createMesh\<close> receives for mesh \<open>j\<close> of an entity, the mesh indices
  that the mesh loop of entity \<open>i\<close> runs through, and the calls that one pass of the entity
  loop makes. They are compared with \<open>load_mesh\<close>, \<open>load_meshes\<close> and \<open>load_entity\<close>
  below.
\<close>

definition mesh_record :: "inflatedData \<Rightarrow> string option \<Rightarrow> jsobj \<Rightarrow> nat \<Rightarrow> jsobj" where
  "mesh_record d entityId meshDefaults j =
     utils_apply meshDefaults (mesh_literal d (mesh_id entityId j) j color2 (load_opacity d j))"

definition mesh_range :: "inflatedData \<Rightarrow> nat \<Rightarrow> nat list" where
  "mesh_range d i =
     (case (mesh_begin d i, mesh_jlen d i) of
        (Some j, Some jlen) \<Rightarrow> [j..<jlen]
      | _ \<Rightarrow> [])"

definition entity_calls :: "viewer \<Rightarrow> options \<Rightarrow> inflatedData \<Rightarrow> nat \<Rightarrow> call list" where
  "entity_calls viewer options d i =
     (let entityId = typed_get (entityIDs d) i
      in case load_defaults viewer options entityId of
           None \<Rightarrow> []
         | Some (entityDefaults, meshDefaults) \<Rightarrow>
             map (\<lambda>j. CreateMesh (mesh_record d entityId meshDefaults j)) (mesh_range d i) @
             [CreateEntity (utils_apply entityDefaults
                (entity_literal d entityId i (map (mesh_id entityId) (mesh_range d i))))])"

text \<open>The mesh indices a decode runs through, in the order of the calls.\<close>

definition visited_meshes :: "viewer \<Rightarrow> options \<Rightarrow> inflatedData \<Rightarrow> nat list" where
  "visited_meshes viewer options d =
     concat (map (\<lambda>i. case load_defaults viewer options (typed_get (entityIDs d) i) of
                          None \<Rightarrow> [] | Some _ \<Rightarrow> mesh_range d i)
                 [0..<length (entityMeshes d)])"

text \<open>The three colour channels of mesh \<open>j\<close>.\<close>

definition decoded_color :: "inflatedData \<Rightarrow> nat \<Rightarrow> jsnum list" where
  "decoded_color d j =
     [div255 (typed_get (meshColors d) (4 * j)),
      div255 (typed_get (meshColors d) (4 * j + 1)),
      div255 (typed_get (meshColors d) (4 * j + 2))]"

text \<open>
  The heap after the meshes \<open>js\<close> have been decoded in this order: the buffer holds the
  colour of the last one.
\<close>

definition heap_after :: "(addr \<Rightarrow> jsnum list) \<Rightarrow> inflatedData \<Rightarrow> nat list \<Rightarrow> (addr \<Rightarrow> jsnum list)" where
  "heap_after h d js = (if js = [] then h else h(color2 := decoded_color d (last js)))"

subsection \<open>Predicates on calls, values and containers\<close>

text \<open>Entity \<open>i\<close> passes the filter: its pass of the entity loop does not \<^verbatim>\<open>continue\<close>.\<close>

definition passes :: "viewer \<Rightarrow> options \<Rightarrow> inflatedData \<Rightarrow> nat \<Rightarrow> bool" where
  "passes viewer options d i =
     (load_defaults viewer options (typed_get (entityIDs d) i) \<noteq> None)"

text \<open>The records of the calls of \<^verbatim>\<open>createMesh\<close> among some calls, in their order.\<close>

fun mesh_records :: "call list \<Rightarrow> jsobj list" where
  "mesh_records [] = []"
| "mesh_records (CreateMesh cfg # cs) = cfg # mesh_records cs"
| "mesh_records (CreateEntity cfg # cs) = mesh_records cs"

fun is_createEntity :: "call \<Rightarrow> bool" where
  "is_createEntity (CreateEntity cfg) = True"
| "is_createEntity (CreateMesh cfg) = False"

fun in_unit :: "jsnum \<Rightarrow> bool" where
  "in_unit NaN = False"
| "in_unit (Num x) = (0 \<le> x \<and> x \<le> 1)"

text \<open>
  The inputs for which the specification announces an \<^verbatim>\<open>InconsistentOffsetTableError\<close>: an
  offset array whose length is not the number of meshes (the length of \<open>meshPositions\<close>),
  or an offset array with a decreasing value.
\<close>

definition inconsistent_offset_table :: "inflatedData \<Rightarrow> bool" where
  "inconsistent_offset_table d =
     (length (meshIndices d) \<noteq> length (meshPositions d) \<or>
      length (meshEdgesIndices d) \<noteq> length (meshPositions d) \<or>
      \<not> sorted (map unat (meshPositions d)) \<or>
      \<not> sorted (map unat (meshIndices d)) \<or>
      \<not> sorted (map unat (meshEdgesIndices d)) \<or>
      \<not> sorted (map unat (entityMeshes d)))"

subsection \<open>Example inputs\<close>

text \<open>A fresh module and performance model: the buffer holds zeros, no call was made.\<close>

definition state0 :: state where
  "state0 = \<lparr>heap = (\<lambda>a. [Num 0, Num 0, Num 0]), positionsCompression = None,
      normalsCompression = None, calls = []\<rparr>"

text \<open>
  Meta objects for a wall \<open>w\<close>, a door \<open>d\<close> and an object \<open>u\<close> that has no type.
\<close>

definition ex_viewer :: viewer where
  "ex_viewer = \<lparr>metaObjects = [''w'' \<mapsto> \<lparr>mo_type = Some ''Wall''\<rparr>,
      ''d'' \<mapsto> \<lparr>mo_type = Some ''Door''\<rparr>, ''u'' \<mapsto> \<lparr>mo_type = None\<rparr>]\<rparr>"

definition no_options :: options where
  "no_options = \<lparr>excludeTypesMap = None, includeTypesMap = None, objectDefaults = None,
      excludeUnclassifiedObjects = False\<rparr>"

text \<open>One entity, two meshes of one triangle each.\<close>

definition two_meshes :: inflatedData where
  "two_meshes = \<lparr>positions = replicate 18 0, normals = replicate 18 0,
      indices = [0, 1, 2, 0, 1, 2], edgeIndices = [0, 1, 1, 2, 2, 0, 0, 1, 1, 2, 2, 0],
      meshPositions = [0, 9], meshIndices = [0, 3], meshEdgesIndices = [0, 6],
      meshColors = [255, 0, 128, 64, 0, 255, 0, 255],
      entityIDs = [''a''], entityMeshes = [0], entityIsObjects = [1],
      positionsDecodeMatrix = [1, 0, 0, 0, 0, 1, 0, 0, 0, 0, 1, 0, 0, 0, 0, 1]\<rparr>"

text \<open>One entity with one mesh.\<close>

definition one_mesh :: inflatedData where
  "one_mesh = \<lparr>positions = replicate 9 0, normals = replicate 9 0,
      indices = [0, 1, 2], edgeIndices = [0, 1, 1, 2, 2, 0],
      meshPositions = [0], meshIndices = [0], meshEdgesIndices = [0],
      meshColors = [255, 0, 128, 64],
      entityIDs = [''a''], entityMeshes = [0], entityIsObjects = [1],
      positionsDecodeMatrix = [1, 0, 0, 0, 0, 1, 0, 0, 0, 0, 1, 0, 0, 0, 0, 1]\<rparr>"

text \<open>
  Two entities and two meshes; \<open>meshPositions\<close> decreases and \<open>meshIndices\<close> has one
  element only.
\<close>

definition bad_offsets :: inflatedData where
  "bad_offsets = \<lparr>positions = replicate 18 0, normals = replicate 18 0,
      indices = [0, 1, 2, 0, 1, 2], edgeIndices = [0, 1, 1, 2, 2, 0, 0, 1, 1, 2, 2, 0],
      meshPositions = [9, 0], meshIndices = [0], meshEdgesIndices = [0, 6],
      meshColors = [255, 0, 128, 64, 0, 255, 0, 255],
      entityIDs = [''a'', ''b''], entityMeshes = [0, 1], entityIsObjects = [1, 1],
      positionsDecodeMatrix = [1, 0, 0, 0, 0, 1, 0, 0, 0, 0, 1, 0, 0, 0, 0, 1]\<rparr>"

text \<open>Options with defaults for walls, and a container with one wall.\<close>

definition wall_defaults :: options where
  "wall_defaults = \<lparr>excludeTypesMap = None, includeTypesMap = None,
      objectDefaults = Some [''Wall'' \<mapsto>
        \<lparr>visible = None, pickable = Some False, colorize = Some [1, 0, 0], opacity = Some (1 / 2)\<rparr>],
      excludeUnclassifiedObjects = False\<rparr>"

definition wall_data :: inflatedData where
  "wall_data = \<lparr>positions = replicate 9 0, normals = replicate 9 0,
      indices = [0, 1, 2], edgeIndices = [0, 1, 1, 2, 2, 0],
      meshPositions = [0], meshIndices = [0], meshEdgesIndices = [0],
      meshColors = [255, 0, 128, 64],
      entityIDs = [''w''], entityMeshes = [0], entityIsObjects = [1],
      positionsDecodeMatrix = [1, 0, 0, 0, 0, 1, 0, 0, 0, 0, 1, 0, 0, 0, 0, 1]\<rparr>"

text \<open>Options that exclude walls, include doors only, and also exclude what has no type.\<close>

definition excl_wall :: options where
  "excl_wall = \<lparr>excludeTypesMap = Some (\<lambda>t. t = ''Wall''), includeTypesMap = None,
      objectDefaults = None, excludeUnclassifiedObjects = False\<rparr>"

definition incl_door :: options where
  "incl_door = \<lparr>excludeTypesMap = None, includeTypesMap = Some (\<lambda>t. t = ''Door''),
      objectDefaults = None, excludeUnclassifiedObjects = False\<rparr>"

definition incl_door_only :: options where
  "incl_door_only = \<lparr>excludeTypesMap = None, includeTypesMap = Some (\<lambda>t. t = ''Door''),
      objectDefaults = None, excludeUnclassifiedObjects = True\<rparr>"

text \<open>
  Four entities with one mesh each: a wall, a door, an entity without meta object and an
  entity whose meta object has no type.
\<close>

definition four_entities :: inflatedData where
  "four_entities = \<lparr>positions = replicate 36 0, normals = replicate 36 0,
      indices = [0, 1, 2, 0, 1, 2, 0, 1, 2, 0, 1, 2],
      edgeIndices = [0, 1, 1, 2, 2, 0, 0, 1, 1, 2, 2, 0, 0, 1, 1, 2, 2, 0, 0, 1, 1, 2, 2, 0],
      meshPositions = [0, 9, 18, 27], meshIndices = [0, 3, 6, 9],
      meshEdgesIndices = [0, 6, 12, 18],
      meshColors = [255, 0, 128, 64, 0, 255, 0, 255, 0, 0, 255, 255, 9, 9, 9, 255],
      entityIDs = [''w'', ''d'', ''x'', ''u''], entityMeshes = [0, 1, 2, 3],
      entityIsObjects = [1, 1, 0, 1],
      positionsDecodeMatrix = [1, 0, 0, 0, 0, 1, 0, 0, 0, 0, 1, 0, 0, 0, 0, 1]\<rparr>"

text \<open>
  Three entities and three meshes with \<open>entityMeshes = [0, 0, 2]\<close>: entity 0 has no mesh,
  entity 1 has the meshes 0 and 1, entity 2 has mesh 2.
\<close>

definition zero_mesh :: inflatedData where
  "zero_mesh = \<lparr>positions = replicate 27 0, normals = replicate 27 0,
      indices = [0, 1, 2, 0, 1, 2, 0, 1, 2],
      edgeIndices = [0, 1, 1, 2, 2, 0, 0, 1, 1, 2, 2, 0, 0, 1, 1, 2, 2, 0],
      meshPositions = [0, 9, 18], meshIndices = [0, 3, 6], meshEdgesIndices = [0, 6, 12],
      meshColors = [255, 0, 128, 64, 0, 255, 0, 255, 0, 0, 255, 255],
      entityIDs = [''a'', ''b'', ''c''], entityMeshes = [0, 0, 2], entityIsObjects = [1, 1, 0],
      positionsDecodeMatrix = [1, 0, 0, 0, 0, 1, 0, 0, 0, 0, 1, 0, 0, 0, 0, 1]\<rparr>"

text \<open>Two entities with one mesh each; the positions and normals count from 1.\<close>

definition two_entities :: inflatedData where
  "two_entities = \<lparr>positions = [1, 2, 3, 4, 5, 6, 7, 8, 9, 10, 11, 12, 13, 14, 15, 16, 17, 18],
      normals = [1, 2, 3, 4, 5, 6, 7, 8, 9, 10, 11, 12, 13, 14, 15, 16, 17, 18],
      indices = [0, 1, 2, 0, 1, 2], edgeIndices = [0, 1, 1, 2, 2, 0, 0, 1, 1, 2, 2, 0],
      meshPositions = [0, 9], meshIndices = [0, 3], meshEdgesIndices = [0, 6],
      meshColors = [255, 0, 128, 64, 0, 255, 0, 255],
      entityIDs = [''a'', ''b''], entityMeshes = [0, 1], entityIsObjects = [1, 1],
      positionsDecodeMatrix = [1, 0, 0, 0, 0, 1, 0, 0, 0, 0, 1, 0, 0, 0, 0, 1]\<rparr>"

text \<open>A wall and a door with one mesh each.\<close>

definition wall_and_door :: inflatedData where
  "wall_and_door = \<lparr>positions = replicate 18 0, normals = replicate 18 0,
      indices = [0, 1, 2, 0, 1, 2], edgeIndices = [0, 1, 1, 2, 2, 0, 0, 1, 1, 2, 2, 0],
      meshPositions = [0, 9], meshIndices = [0, 3], meshEdgesIndices = [0, 6],
      meshColors = [255, 0, 128, 64, 0, 255, 0, 255],
      entityIDs = [''w'', ''d''], entityMeshes = [0, 1], entityIsObjects = [1, 1],
      positionsDecodeMatrix = [1, 0, 0, 0, 0, 1, 0, 0, 0, 0, 1, 0, 0, 0, 0, 1]\<rparr>"

section \<open>The loops, written out\<close>


lemma typed_get_subarray:
  "k < n \<Longrightarrow> typed_get (subarray xs (Some a) (Some (a + n))) k = typed_get xs (a + k)"
  by (auto simp: typed_get_def subarray_def Let_def min_def)

lemma load_color_heap:
  "length (h color2) = 3 \<Longrightarrow> load_color h d j = (color2, h(color2 := decoded_color d j))"
  unfolding load_color_def decompressColor_def decoded_color_def Let_def
  apply (simp add: typed_get_subarray [where n = 3] mult.commute)
  apply (cases "h color2"; simp)
  subgoal for a as
    apply (cases as; simp)
    subgoal for b bs
      by (cases bs; simp)
    done
  done

lemma load_color_fst: "fst (load_color h d j) = color2"
  by (simp add: load_color_def decompressColor_def Let_def)

lemma load_color_length:
  "length (snd (load_color h d j) color2) = length (h color2)"
  by (simp add: load_color_def decompressColor_def Let_def)

lemma load_mesh_calls:
  "calls (fst (load_mesh d eid md j acc)) = calls (fst acc) @ [CreateMesh (mesh_record d eid md j)]"
  using load_color_fst [of "heap (fst acc)" d j]
  by (auto simp: load_mesh_def mesh_record_def Let_def split: prod.splits)

lemma load_mesh_ids:
  "snd (load_mesh d eid md j acc) = snd acc @ [mesh_id eid j]"
  by (simp add: load_mesh_def Let_def split: prod.splits)

lemma load_mesh_heap:
  "heap (fst (load_mesh d eid md j acc)) = snd (load_color (heap (fst acc)) d j)"
  by (simp add: load_mesh_def Let_def split: prod.splits)

lemma load_meshes_calls:
  "calls (fst (load_meshes d eid md j jlen acc)) =
     calls (fst acc) @ map (\<lambda>k. CreateMesh (mesh_record d eid md k)) [j..<jlen]"
proof (induction d eid md j jlen acc rule: load_meshes.induct)
  case (1 d eid md j jlen acc)
  show ?case
  proof (cases "j < jlen")
    case True
    then show ?thesis
      using "1.IH" [OF True]
      by (subst load_meshes.simps) (simp add: load_mesh_calls upt_rec [of j jlen])
  next
    case False
    then show ?thesis
      by (subst load_meshes.simps) simp
  qed
qed

lemma load_meshes_ids:
  "snd (load_meshes d eid md j jlen acc) = snd acc @ map (mesh_id eid) [j..<jlen]"
proof (induction d eid md j jlen acc rule: load_meshes.induct)
  case (1 d eid md j jlen acc)
  show ?case
  proof (cases "j < jlen")
    case True
    then show ?thesis
      using "1.IH" [OF True]
      by (subst load_meshes.simps) (simp add: load_mesh_ids upt_rec [of j jlen])
  next
    case False
    then show ?thesis
      by (subst load_meshes.simps) simp
  qed
qed

lemma load_meshes_heap:
  "length (heap (fst acc) color2) = 3 \<Longrightarrow>
   heap (fst (load_meshes d eid md j jlen acc)) =
     (if j < jlen then (heap (fst acc))(color2 := decoded_color d (jlen - 1)) else heap (fst acc))"
proof (induction d eid md j jlen acc rule: load_meshes.induct)
  case (1 d eid md j jlen acc)
  show ?case
  proof (cases "j < jlen")
    case True
    have len: "length (heap (fst (load_mesh d eid md j acc)) color2) = 3"
      using "1.prems" by (simp add: load_mesh_heap load_color_length)
    have h: "heap (fst (load_mesh d eid md j acc)) = (heap (fst acc))(color2 := decoded_color d j)"
      using "1.prems" by (simp add: load_mesh_heap load_color_heap)
    show ?thesis
    proof (cases "j + 1 < jlen")
      case True
      then show ?thesis
        using "1.IH" [OF \<open>j < jlen\<close> len] \<open>j < jlen\<close> h
        by (subst load_meshes.simps) (auto simp: fun_eq_iff)
    next
      case False
      then have "jlen - 1 = j" using \<open>j < jlen\<close> by simp
      then show ?thesis
        using "1.IH" [OF \<open>j < jlen\<close> len] \<open>j < jlen\<close> h False
        by (subst load_meshes.simps) (auto simp: fun_eq_iff)
    qed
  next
    case False
    then show ?thesis
      by (subst load_meshes.simps) simp
  qed
qed


lemma load_meshes_length:
  "length (heap (fst (load_meshes d eid md j jlen acc)) color2) = length (heap (fst acc) color2)"
proof (induction d eid md j jlen acc rule: load_meshes.induct)
  case (1 d eid md j jlen acc)
  show ?case
  proof (cases "j < jlen")
    case True
    then show ?thesis
      using "1.IH" [OF True]
      by (subst load_meshes.simps) (simp add: load_mesh_heap load_color_length)
  next
    case False
    then show ?thesis
      by (subst load_meshes.simps) simp
  qed
qed


lemma heap_after_append:
  "heap_after (heap_after h d js) d ks = heap_after h d (js @ ks)"
  by (auto simp: heap_after_def)

lemma load_entity_calls:
  "calls (load_entity viewer options d i s) = calls s @ entity_calls viewer options d i"
  by (simp add: load_entity_def entity_calls_def mesh_range_def Let_def
        load_meshes_calls load_meshes_ids case_prod_beta
      split: option.splits)

lemma load_entity_heap:
  assumes "length (heap s color2) = 3"
  shows "heap (load_entity viewer options d i s) =
     heap_after (heap s) d
       (case load_defaults viewer options (typed_get (entityIDs d) i) of
          None \<Rightarrow> [] | Some _ \<Rightarrow> mesh_range d i)"
  using assms
  by (simp add: load_entity_def mesh_range_def Let_def heap_after_def
        load_meshes_heap case_prod_beta
      split: option.splits)

lemma load_entity_length:
  "length (heap (load_entity viewer options d i s) color2) = length (heap s color2)"
  by (simp add: load_entity_def Let_def load_meshes_length case_prod_beta
      split: option.splits)

lemma load_entities_calls:
  "calls (load_entities viewer options d i s) =
     calls s @ concat (map (entity_calls viewer options d) [i..<length (entityMeshes d)])"
proof (induction viewer options d i s rule: load_entities.induct)
  case (1 viewer options d i s)
  show ?case
  proof (cases "i < length (entityMeshes d)")
    case True
    then show ?thesis
      using "1.IH" [OF True]
      by (subst load_entities.simps)
         (simp add: load_entity_calls upt_rec [of i "length (entityMeshes d)"])
  next
    case False
    then show ?thesis
      by (subst load_entities.simps) simp
  qed
qed

lemma load_entities_heap:
  "length (heap s color2) = 3 \<Longrightarrow>
   heap (load_entities viewer options d i s) =
     heap_after (heap s) d
       (concat (map (\<lambda>i. case load_defaults viewer options (typed_get (entityIDs d) i) of
                          None \<Rightarrow> [] | Some _ \<Rightarrow> mesh_range d i)
                 [i..<length (entityMeshes d)]))"
proof (induction viewer options d i s rule: load_entities.induct)
  case (1 viewer options d i s)
  show ?case
  proof (cases "i < length (entityMeshes d)")
    case True
    have len: "length (heap (load_entity viewer options d i s) color2) = 3"
      using "1.prems" by (simp add: load_entity_length)
    show ?thesis
      using "1.IH" [OF True len] True
      by (subst load_entities.simps)
         (simp add: load_entity_heap [OF "1.prems"] heap_after_append
            upt_rec [of i "length (entityMeshes d)"])
  next
    case False
    then show ?thesis
      by (subst load_entities.simps) (simp add: heap_after_def)
  qed
qed

lemma load_calls:
  "calls (load viewer options d s) =
     calls s @ concat (map (entity_calls viewer options d) [0..<length (entityMeshes d)])"
  by (simp add: load_def load_entities_calls)

lemma load_heap:
  "length (heap s color2) = 3 \<Longrightarrow>
   heap (load viewer options d s) = heap_after (heap s) d (visited_meshes viewer options d)"
  by (simp add: load_def load_entities_heap visited_meshes_def)

lemma string_of_nat_digit: "n < 10 \<Longrightarrow> string_of_nat n = [digit_char n]"
  by (subst string_of_nat.simps) simp

lemma mesh_id_a0: "mesh_id (Some ''a'') 0 = ''a.mesh.0''"
  by (simp add: mesh_id_def js_string_def string_of_nat_digit digit_char_def)

lemma utils_apply_empty: "utils_apply Map.empty literal = literal"
  by (simp add: utils_apply_def)

lemma load_defaults_plain:
  "metaObjects viewer (js_string entityId) = None \<Longrightarrow> \<not> excludeUnclassifiedObjects options \<Longrightarrow>
   load_defaults viewer options entityId = Some (Map.empty, Map.empty)"
  by (simp add: load_defaults_def)

lemma utils_apply_none: "defaults k = None \<Longrightarrow> utils_apply defaults literal k = literal k"
  by (simp add: utils_apply_def map_add_def)

lemma utils_apply_some: "defaults k = Some v \<Longrightarrow> utils_apply defaults literal k = Some v"
  by (simp add: utils_apply_def map_add_def)

lemma load_defaults_form:
  assumes "load_defaults viewer options entityId = Some (entityDefaults, meshDefaults)"
  shows "(entityDefaults = Map.empty \<and> meshDefaults = Map.empty) \<or>
     (\<exists>p :: props. entityDefaults =
          (let e1 = (if visible p = Some False then [''visible'' \<mapsto> VBool False] else Map.empty)
           in if pickable p = Some False then e1(''pickable'' \<mapsto> VBool False) else e1) \<and>
        meshDefaults =
          (let m1 = (case colorize p of None \<Rightarrow> Map.empty | Some c \<Rightarrow> [''color'' \<mapsto> VArray c])
           in case opacity p of None \<Rightarrow> m1 | Some a \<Rightarrow> m1(''opacity'' \<mapsto> VNum (Num a))))"
proof (cases "metaObjects viewer (js_string entityId)")
  case None
  with assms have "entityDefaults = Map.empty \<and> meshDefaults = Map.empty"
    by (auto simp: load_defaults_def split: if_splits)
  then show ?thesis
    by blast
next
  case mo: (Some mo)
  show ?thesis
  proof (cases "case objectDefaults options of None \<Rightarrow> None
      | Some od \<Rightarrow> od (if type_truthy mo then the (mo_type mo) else ''DEFAULT'')")
    case None
    with assms mo have form: "entityDefaults = Map.empty \<and> meshDefaults = Map.empty"
      by (auto simp: load_defaults_def split: if_splits)
    then show ?thesis
      by blast
  next
    case (Some p)
    with assms mo have form: "entityDefaults =
          (let e1 = (if visible p = Some False then [''visible'' \<mapsto> VBool False] else Map.empty)
           in if pickable p = Some False then e1(''pickable'' \<mapsto> VBool False) else e1) \<and>
        meshDefaults =
          (let m1 = (case colorize p of None \<Rightarrow> Map.empty | Some c \<Rightarrow> [''color'' \<mapsto> VArray c])
           in case opacity p of None \<Rightarrow> m1 | Some a \<Rightarrow> m1(''opacity'' \<mapsto> VNum (Num a)))"
      by (auto simp: load_defaults_def Let_def split: if_splits)
    show ?thesis
      by (rule disjI2, rule exI [where x = p], rule form)
  qed
qed

lemma load_defaults_keys:
  assumes "load_defaults viewer options entityId = Some (entityDefaults, meshDefaults)"
  shows "k \<noteq> ''color'' \<Longrightarrow> k \<noteq> ''opacity'' \<Longrightarrow> meshDefaults k = None"
    and "k \<noteq> ''visible'' \<Longrightarrow> k \<noteq> ''pickable'' \<Longrightarrow> entityDefaults k = None"
  using load_defaults_form [OF assms]
  by (auto simp: Let_def split: option.splits if_splits)

lemma mesh_literal_at:
  "mesh_literal d meshId j color opac ''id'' = Some (VStr meshId)"
  "mesh_literal d meshId j color opac ''color'' = Some (VRef color)"
  "mesh_literal d meshId j color opac ''opacity'' = Some (VNum opac)"
  "mesh_literal d meshId j color opac ''positions'' =
     Some (VU16 (subarray (positions d) (offset_get (meshPositions d) j)
       (if int j = int (length (meshPositions d)) - 1 then Some (length (positions d))
        else offset_get (meshPositions d) (j + 1))))"
  "mesh_literal d meshId j color opac ''normals'' =
     Some (VI8 (subarray (normals d) (offset_get (meshPositions d) j)
       (if int j = int (length (meshPositions d)) - 1 then Some (length (positions d))
        else offset_get (meshPositions d) (j + 1))))"
  "mesh_literal d meshId j color opac ''indices'' =
     Some (VU32 (subarray (indices d) (offset_get (meshIndices d) j)
       (if int j = int (length (meshPositions d)) - 1 then Some (length (indices d))
        else offset_get (meshIndices d) (j + 1))))"
  "mesh_literal d meshId j color opac ''edgeIndices'' =
     Some (VU32 (subarray (edgeIndices d) (offset_get (meshEdgesIndices d) j)
       (if int j = int (length (meshPositions d)) - 1 then Some (length (edgeIndices d))
        else offset_get (meshEdgesIndices d) (j + 1))))"
  by (simp_all add: mesh_literal_def Let_def)

lemma mesh_record_color:
  "mesh_record d eid md j ''color'' =
     (case md ''color'' of None \<Rightarrow> Some (VRef color2) | Some v \<Rightarrow> Some v)"
  by (simp add: mesh_record_def utils_apply_none utils_apply_some mesh_literal_at
      split: option.splits)

lemma mesh_record_opacity:
  "mesh_record d eid md j ''opacity'' =
     (case md ''opacity'' of None \<Rightarrow> Some (VNum (load_opacity d j)) | Some v \<Rightarrow> Some v)"
  by (simp add: mesh_record_def utils_apply_none utils_apply_some mesh_literal_at
      split: option.splits)

lemma mesh_record_at:
  assumes "load_defaults viewer options entityId = Some (entityDefaults, md)"
  shows "mesh_record d eid md j ''positions'' =
     Some (VU16 (subarray (positions d) (offset_get (meshPositions d) j)
       (if int j = int (length (meshPositions d)) - 1 then Some (length (positions d))
        else offset_get (meshPositions d) (j + 1))))"
    and "mesh_record d eid md j ''normals'' =
     Some (VI8 (subarray (normals d) (offset_get (meshPositions d) j)
       (if int j = int (length (meshPositions d)) - 1 then Some (length (positions d))
        else offset_get (meshPositions d) (j + 1))))"
    and "mesh_record d eid md j ''indices'' =
     Some (VU32 (subarray (indices d) (offset_get (meshIndices d) j)
       (if int j = int (length (meshPositions d)) - 1 then Some (length (indices d))
        else offset_get (meshIndices d) (j + 1))))"
    and "mesh_record d eid md j ''edgeIndices'' =
     Some (VU32 (subarray (edgeIndices d) (offset_get (meshEdgesIndices d) j)
       (if int j = int (length (meshPositions d)) - 1 then Some (length (edgeIndices d))
        else offset_get (meshEdgesIndices d) (j + 1))))"
    and "mesh_record d eid md j ''id'' = Some (VStr (mesh_id eid j))"
  by (simp_all add: mesh_record_def utils_apply_none load_defaults_keys(1) [OF assms]
      mesh_literal_at)

lemma mesh_records_append: "mesh_records (xs @ ys) = mesh_records xs @ mesh_records ys"
  by (induction xs rule: mesh_records.induct) simp_all

lemma mesh_records_map: "mesh_records (map (\<lambda>j. CreateMesh (f j)) js) = map f js"
  by (induction js) simp_all

lemma mesh_records_entity_calls:
  "mesh_records (entity_calls viewer options d i) =
     (case load_defaults viewer options (typed_get (entityIDs d) i) of
        None \<Rightarrow> []
      | Some (entityDefaults, meshDefaults) \<Rightarrow>
          map (mesh_record d (typed_get (entityIDs d) i) meshDefaults) (mesh_range d i))"
  by (simp add: entity_calls_def Let_def mesh_records_append mesh_records_map
      split: option.splits)

lemma mesh_records_fields:
  assumes "\<And>entityDefaults meshDefaults eid j. load_defaults viewer options eid = Some (entityDefaults, meshDefaults)
     \<Longrightarrow> f (mesh_record d eid meshDefaults j) = g j"
  shows "map f (mesh_records (concat (map (entity_calls viewer options d) is))) =
     map g (concat (map (\<lambda>i. case load_defaults viewer options (typed_get (entityIDs d) i) of
                          None \<Rightarrow> [] | Some _ \<Rightarrow> mesh_range d i) is))"
proof (induction "is")
  case Nil
  show ?case by simp
next
  case (Cons i "is")
  show ?case
  proof (cases "load_defaults viewer options (typed_get (entityIDs d) i)")
    case None
    then show ?thesis
      using Cons by (simp add: mesh_records_append mesh_records_entity_calls)
  next
    case (Some p)
    obtain ed md where p: "p = (ed, md)"
      by (cases p)
    have "map f (map (mesh_record d (typed_get (entityIDs d) i) md) (mesh_range d i)) =
        map g (mesh_range d i)"
      using assms [of "typed_get (entityIDs d) i" ed md] Some p by simp
    then show ?thesis
      using Cons Some p by (simp add: mesh_records_append mesh_records_entity_calls)
  qed
qed

lemma entity_calls_count:
  "length (filter is_createEntity (entity_calls viewer options d i)) =
     (if load_defaults viewer options (typed_get (entityIDs d) i) \<noteq> None then 1 else 0)"
  by (auto simp: entity_calls_def Let_def filter_map comp_def split: option.splits)

lemma concat_entity_calls_count:
  "length (filter is_createEntity (concat (map (entity_calls viewer options d) is))) =
     length (filter (passes viewer options d) is)"
  by (induction "is") (simp_all add: entity_calls_count passes_def)

lemma entity_calls_mesh:
  assumes "CreateMesh cfg \<in> set (entity_calls viewer options d i)"
  shows "\<exists>ed md j. load_defaults viewer options (typed_get (entityIDs d) i) = Some (ed, md) \<and>
     j \<in> set (mesh_range d i) \<and> cfg = mesh_record d (typed_get (entityIDs d) i) md j"
proof (cases "load_defaults viewer options (typed_get (entityIDs d) i)")
  case None
  with assms show ?thesis
    by (simp add: entity_calls_def)
next
  case (Some p)
  obtain ed md where p: "p = (ed, md)"
    by (cases p)
  from assms Some p
  obtain j where "j \<in> set (mesh_range d i)"
      and "cfg = mesh_record d (typed_get (entityIDs d) i) md j"
    by (auto simp: entity_calls_def Let_def)
  with Some p show ?thesis
    by blast
qed

lemma entity_calls_length:
  "length (entity_calls viewer options d i) =
     (case load_defaults viewer options (typed_get (entityIDs d) i) of
        None \<Rightarrow> 0 | Some x \<Rightarrow> length (mesh_range d i) + 1)"
  by (simp add: entity_calls_def Let_def split: option.splits)

lemma load_new_mesh_call:
  assumes "calls (load viewer options d s) = calls s @ new" and "CreateMesh cfg \<in> set new"
  shows "\<exists>i ed md j. i < length (entityMeshes d) \<and>
     load_defaults viewer options (typed_get (entityIDs d) i) = Some (ed, md) \<and>
     j \<in> set (mesh_range d i) \<and> cfg = mesh_record d (typed_get (entityIDs d) i) md j"
proof -
  have "new = concat (map (entity_calls viewer options d) [0..<length (entityMeshes d)])"
    using assms(1) by (simp add: load_calls)
  then obtain i where "i < length (entityMeshes d)"
      and "CreateMesh cfg \<in> set (entity_calls viewer options d i)"
    using assms(2) by auto
  then show ?thesis
    using entity_calls_mesh by blast
qed

lemma load_defaults_props:
  assumes "load_defaults viewer options entityId = Some (entityDefaults, meshDefaults)"
    and "metaObjects viewer (js_string entityId) = Some mo"
    and "objectDefaults options = Some od"
    and "od (if type_truthy mo then the (mo_type mo) else ''DEFAULT'') = Some p"
  shows "meshDefaults ''color'' = map_option VArray (colorize p)"
    and "meshDefaults ''opacity'' = map_option (\<lambda>a. VNum (Num a)) (opacity p)"
  using assms
  by (auto simp: load_defaults_def Let_def split: if_splits option.splits)

lemma subarray_length_eq:
  "length xs = length ys \<Longrightarrow> length (subarray xs b e) = length (subarray ys b e)"
  by (simp add: subarray_def Let_def)

lemma entity_calls_not_Nil:
  "load_defaults viewer options (typed_get (entityIDs d) i) \<noteq> None \<Longrightarrow>
   entity_calls viewer options d i \<noteq> []"
  by (auto simp: entity_calls_def Let_def)

lemma load_entity_skip_iff:
  "(load_entity viewer options d i s = s) =
     (load_defaults viewer options (typed_get (entityIDs d) i) = None)"
proof
  assume "load_entity viewer options d i s = s"
  then have "calls s @ entity_calls viewer options d i = calls s"
    using load_entity_calls [of viewer options d i s] by simp
  then show "load_defaults viewer options (typed_get (entityIDs d) i) = None"
    using entity_calls_not_Nil [of viewer options d i] by (cases "load_defaults viewer options (typed_get (entityIDs d) i)") simp_all
next
  assume "load_defaults viewer options (typed_get (entityIDs d) i) = None"
  then show "load_entity viewer options d i s = s"
    by (simp add: load_entity_def)
qed

lemma load_defaults_classified:
  assumes "metaObjects viewer (js_string entityId) = Some mo"
    and "mo_type mo = Some t" and "t \<noteq> []"
  shows "(load_defaults viewer options entityId = None) =
     ((\<exists>ex. excludeTypesMap options = Some ex \<and> ex t) \<or>
      (\<exists>inc. includeTypesMap options = Some inc \<and> \<not> inc t))"
  using assms
  by (auto simp: load_defaults_def type_truthy_def Let_def split: option.splits)

lemma load_defaults_unclassified:
  assumes "metaObjects viewer (js_string entityId) = None"
  shows "(load_defaults viewer options entityId = None) = excludeUnclassifiedObjects options"
  using assms
  by (simp add: load_defaults_def)

lemma load_defaults_untyped:
  assumes "metaObjects viewer (js_string entityId) = Some mo" and "\<not> type_truthy mo"
  shows "load_defaults viewer options entityId \<noteq> None"
  using assms
  by (simp add: load_defaults_def Let_def split: option.splits)

lemma mesh_id_b:
  "mesh_id (Some ''b'') 0 = ''b.mesh.0''" "mesh_id (Some ''b'') (Suc 0) = ''b.mesh.1''"
  by (simp_all add: mesh_id_def js_string_def string_of_nat_digit digit_char_def)

lemma load_meshes_empty: "\<not> j < jlen \<Longrightarrow> load_meshes d entityId meshDefaults j jlen acc = acc"
  by (subst load_meshes.simps) simp

lemma entity_literal_meshIds: "entity_literal d entityId i meshIds ''meshIds'' = Some (VStrs meshIds)"
  by (simp add: entity_literal_def)

lemma div255_in_unit: "in_unit (div255 (Some b))"
proof -
  have "unat b < 2 ^ LENGTH(8)"
    by (rule unsigned_less)
  then have "unat b \<le> 255"
    by simp
  then have "real (unat b) \<le> real 255"
    by (rule of_nat_mono)
  moreover have "0 \<le> real (unat b)"
    by (rule of_nat_0_le_iff)
  ultimately show ?thesis
    by (simp add: div255_def del: of_nat_unat)
qed

lemma decompressColor_heap:
  "length (h color2) = 3 \<Longrightarrow>
   decompressColor h c =
     (color2, h(color2 := [div255 (typed_get c 0), div255 (typed_get c 1), div255 (typed_get c 2)]))"
  unfolding decompressColor_def Let_def
  apply simp
  apply (cases "h color2"; simp)
  subgoal for a as
    apply (cases as; simp)
    subgoal for b bs
      by (cases bs; simp)
    done
  done

lemma mesh_id_wd:
  "mesh_id (Some ''w'') 0 = ''w.mesh.0''" "mesh_id (Some ''d'') (Suc 0) = ''d.mesh.1''"
  by (simp_all add: mesh_id_def js_string_def string_of_nat_digit digit_char_def)

lemma wall_and_door_defaults:
  "load_defaults ex_viewer wall_defaults (Some ''w'') =
     Some ([''pickable'' \<mapsto> VBool False],
           [''color'' \<mapsto> VArray [1, 0, 0], ''opacity'' \<mapsto> VNum (Num (1 / 2))])"
  "load_defaults ex_viewer wall_defaults (Some ''d'') = Some (Map.empty, Map.empty)"
  by (simp_all add: load_defaults_def ex_viewer_def wall_defaults_def js_string_def
      type_truthy_def)

lemma wall_and_door_range:
  "[0..<length (entityMeshes wall_and_door)] = [0, Suc 0]"
  "mesh_range wall_and_door 0 = [0]" "mesh_range wall_and_door (Suc 0) = [Suc 0]"
  "typed_get (entityIDs wall_and_door) 0 = Some ''w''"
  "typed_get (entityIDs wall_and_door) (Suc 0) = Some ''d''"
  by (simp_all add: mesh_range_def mesh_begin_def mesh_jlen_def offset_get_def typed_get_def
      wall_and_door_def upt_rec)

lemma wall_and_door_calls:
  "calls (load ex_viewer wall_defaults wall_and_door state0) =
     calls state0 @
       [CreateMesh (mesh_record wall_and_door (Some ''w'')
          [''color'' \<mapsto> VArray [1, 0, 0], ''opacity'' \<mapsto> VNum (Num (1 / 2))] 0),
        CreateEntity (utils_apply [''pickable'' \<mapsto> VBool False]
          (entity_literal wall_and_door (Some ''w'') 0 [''w.mesh.0''])),
        CreateMesh (mesh_record wall_and_door (Some ''d'') Map.empty 1),
        CreateEntity (entity_literal wall_and_door (Some ''d'') 1 [''d.mesh.1''])]"
  by (simp add: load_calls entity_calls_def Let_def wall_and_door_range wall_and_door_defaults
      mesh_id_wd utils_apply_empty)

lemma wall_and_door_visited: "visited_meshes ex_viewer wall_defaults wall_and_door = [0, 1]"
  by (simp add: visited_meshes_def wall_and_door_range wall_and_door_defaults)

section \<open>The claims\<close>

text \<open>
  C1. The claim: the mesh range of the last entity is \<open>[entityMeshes[N-1], M)\<close>, with \<open>M\<close>
  the number of meshes. The code ends the range of the last entity at
  \<^verbatim>\<open>entityMeshes.length\<close>, the number of entities. For one entity with two meshes the loop
  runs through mesh 0 only, and mesh 1 is never given to \<^verbatim>\<open>createMesh\<close>.
\<close>

theorem load_last_entity_range_two_meshes:
  "length (entityMeshes two_meshes) = 1 \<and> length (meshPositions two_meshes) = 2 \<and>
   mesh_range two_meshes 0 = [0] \<and>
   mesh_range two_meshes 0 \<noteq> [0..<length (meshPositions two_meshes)] \<and>
   calls (load ex_viewer no_options two_meshes state0) =
     [CreateMesh (mesh_record two_meshes (Some ''a'') Map.empty 0),
      CreateEntity (entity_literal two_meshes (Some ''a'') 0 [''a.mesh.0''])]"
proof -
  have r: "mesh_range two_meshes 0 = [0]"
    by (simp add: mesh_range_def mesh_begin_def mesh_jlen_def offset_get_def typed_get_def
        two_meshes_def)
  have e: "typed_get (entityIDs two_meshes) 0 = Some ''a''"
    by (simp add: typed_get_def two_meshes_def)
  have f: "load_defaults ex_viewer no_options (Some ''a'') = Some (Map.empty, Map.empty)"
    by (rule load_defaults_plain) (simp_all add: ex_viewer_def no_options_def js_string_def)
  have "entity_calls ex_viewer no_options two_meshes 0 =
     [CreateMesh (mesh_record two_meshes (Some ''a'') Map.empty 0),
      CreateEntity (entity_literal two_meshes (Some ''a'') 0 [''a.mesh.0''])]"
    by (simp add: entity_calls_def Let_def e f r mesh_id_a0 utils_apply_empty)
  moreover have "length (entityMeshes two_meshes) = 1" "length (meshPositions two_meshes) = 2"
    by (simp_all add: two_meshes_def)
  moreover have "calls state0 = []"
    by (simp add: state0_def)
  moreover have "[0..<length (meshPositions two_meshes)] = [0, 1]"
    by (simp add: two_meshes_def upt_rec)
  ultimately show ?thesis
    using r by (simp add: load_calls)
qed

text \<open>
  The container \<open>bad_offsets\<close> has a decreasing \<open>meshPositions\<close> and a \<open>meshIndices\<close>
  that is too short. No error is raised: the decode makes four calls.
\<close>

theorem load_runs_on_inconsistent_tables_cex:
  "inconsistent_offset_table bad_offsets \<and>
   length (calls (load ex_viewer no_options bad_offsets state0)) = 4"
proof -
  have i: "inconsistent_offset_table bad_offsets"
    by (simp add: inconsistent_offset_table_def bad_offsets_def)
  have n: "[0..<length (entityMeshes bad_offsets)] = [0, 1]"
    by (simp add: bad_offsets_def upt_rec)
  have r: "mesh_range bad_offsets 0 = [0]" "mesh_range bad_offsets (Suc 0) = [1]"
    by (simp_all add: mesh_range_def mesh_begin_def mesh_jlen_def offset_get_def typed_get_def
        bad_offsets_def)
  have f: "load_defaults ex_viewer no_options (typed_get (entityIDs bad_offsets) 0) =
        Some (Map.empty, Map.empty)"
      "load_defaults ex_viewer no_options (typed_get (entityIDs bad_offsets) (Suc 0)) =
        Some (Map.empty, Map.empty)"
    by (rule load_defaults_plain;
        simp add: ex_viewer_def no_options_def js_string_def typed_get_def bad_offsets_def)+
  have "calls state0 = []"
    by (simp add: state0_def)
  then have "length (calls (load ex_viewer no_options bad_offsets state0)) = 4"
    by (simp add: load_calls n entity_calls_length r f)
  with i show ?thesis by simp
qed

text \<open>
  C2. The claim: a container whose offset arrays have the wrong length or a decreasing
  value makes the decode fail before the entity loop, so that no call reaches the builder.
  The code has no such check and no error exit. As amended: also for such a container the
  entity loop runs, and every entity that the filter lets pass gets its call of
  \<^verbatim>\<open>createEntity\<close>; the number of these calls is the number of entities that pass.
\<close>

theorem load_runs_on_inconsistent_tables:
  assumes "inconsistent_offset_table d"
  shows "length (filter is_createEntity (calls (load viewer options d s))) =
     length (filter is_createEntity (calls s)) +
     length (filter (passes viewer options d) [0..<length (entityMeshes d)])"
  by (simp add: load_calls concat_entity_calls_count)

theorem load_runs_on_inconsistent_tables_witness:
  "inconsistent_offset_table bad_offsets \<and>
   length (filter is_createEntity (calls (load ex_viewer no_options bad_offsets state0))) = 2"
proof -
  have i: "inconsistent_offset_table bad_offsets"
    by (simp add: inconsistent_offset_table_def bad_offsets_def)
  have n: "[0..<length (entityMeshes bad_offsets)] = [0, 1]"
    by (simp add: bad_offsets_def upt_rec)
  have f: "passes ex_viewer no_options bad_offsets 0" "passes ex_viewer no_options bad_offsets 1"
    by (simp_all add: passes_def load_defaults_def ex_viewer_def no_options_def js_string_def
        typed_get_def bad_offsets_def)
  have "calls state0 = []"
    by (simp add: state0_def)
  with load_runs_on_inconsistent_tables [OF i, of ex_viewer no_options state0] n f i
  show ?thesis by simp
qed

text \<open>
  The wall of \<open>wall_data\<close> under \<open>wall_defaults\<close>: the record of its mesh has the colour
  \<open>[1, 0, 0]\<close> and the opacity \<open>1/2\<close> of the defaults, not the buffer and not the decoded
  opacity \<open>64/255\<close>.
\<close>

theorem mesh_defaults_replace_literal_color_cex:
  "load_defaults ex_viewer wall_defaults (Some ''w'') =
     Some ([''pickable'' \<mapsto> VBool False],
           [''color'' \<mapsto> VArray [1, 0, 0], ''opacity'' \<mapsto> VNum (Num (1 / 2))]) \<and>
   calls (fst (load_mesh wall_data (Some ''w'')
      [''color'' \<mapsto> VArray [1, 0, 0], ''opacity'' \<mapsto> VNum (Num (1 / 2))] 0 (state0, []))) =
     [CreateMesh (mesh_record wall_data (Some ''w'')
        [''color'' \<mapsto> VArray [1, 0, 0], ''opacity'' \<mapsto> VNum (Num (1 / 2))] 0)] \<and>
   mesh_record wall_data (Some ''w'')
      [''color'' \<mapsto> VArray [1, 0, 0], ''opacity'' \<mapsto> VNum (Num (1 / 2))] 0 ''color'' =
     Some (VArray [1, 0, 0]) \<and>
   mesh_record wall_data (Some ''w'')
      [''color'' \<mapsto> VArray [1, 0, 0], ''opacity'' \<mapsto> VNum (Num (1 / 2))] 0 ''opacity'' =
     Some (VNum (Num (1 / 2))) \<and>
   load_opacity wall_data 0 = Num (64 / 255) \<and>
   mesh_record wall_data (Some ''w'')
      [''color'' \<mapsto> VArray [1, 0, 0], ''opacity'' \<mapsto> VNum (Num (1 / 2))] 0 ''color'' \<noteq>
     Some (VRef color2) \<and>
   mesh_record wall_data (Some ''w'')
      [''color'' \<mapsto> VArray [1, 0, 0], ''opacity'' \<mapsto> VNum (Num (1 / 2))] 0 ''opacity'' \<noteq>
     Some (VNum (load_opacity wall_data 0))"
proof -
  let ?md = "[''color'' \<mapsto> VArray [1, 0, 0], ''opacity'' \<mapsto> VNum (Num (1 / 2))] :: jsobj"
  have a: "load_defaults ex_viewer wall_defaults (Some ''w'') =
      Some ([''pickable'' \<mapsto> VBool False], ?md)"
    by (simp add: load_defaults_def ex_viewer_def wall_defaults_def js_string_def type_truthy_def)
  have b: "calls (fst (load_mesh wall_data (Some ''w'') ?md 0 (state0, []))) =
      [CreateMesh (mesh_record wall_data (Some ''w'') ?md 0)]"
    by (simp add: load_mesh_calls state0_def)
  have o: "load_opacity wall_data 0 = Num (64 / 255)"
    by (simp add: load_opacity_def wall_data_def typed_get_def div255_def)
  have k: "mesh_record wall_data (Some ''w'') ?md 0 ''color'' = Some (VArray [1, 0, 0])"
    by (simp add: mesh_record_color)
  have l: "mesh_record wall_data (Some ''w'') ?md 0 ''opacity'' = Some (VNum (Num (1 / 2)))"
    by (simp add: mesh_record_opacity)
  from a b o k l show ?thesis
    by simp
qed

text \<open>
  C3. The claim: the defaults of a type never replace the decoded colour and opacity in
  the record that \<^verbatim>\<open>createMesh\<close> receives. In \<^verbatim>\<open>load\<close> they do. As amended: when the type
  of an entity has a default for \<^verbatim>\<open>colorize\<close> or \<^verbatim>\<open>opacity\<close>, the record of every mesh of
  that entity has the \<^verbatim>\<open>colorize\<close> default as its colour where there is one, and the
  buffer of \<^verbatim>\<open>decompressColor\<close> otherwise; it has the \<^verbatim>\<open>opacity\<close> default as its opacity
  where there is one, and the decoded opacity otherwise. The decoded colour is written to
  the buffer in both cases.
\<close>

theorem mesh_defaults_replace_literal_color:
  assumes "load_defaults viewer options entityId = Some (entityDefaults, meshDefaults)"
    and "metaObjects viewer (js_string entityId) = Some mo"
    and "objectDefaults options = Some od"
    and "od (if type_truthy mo then the (mo_type mo) else ''DEFAULT'') = Some p"
    and "colorize p \<noteq> None \<or> opacity p \<noteq> None"
    and "length (heap s color2) = 3"
  shows "\<exists>cfg. calls (fst (load_mesh d entityId meshDefaults j (s, meshIds))) =
       calls s @ [CreateMesh cfg] \<and>
     cfg ''color'' =
       (case colorize p of None \<Rightarrow> Some (VRef color2) | Some c \<Rightarrow> Some (VArray c)) \<and>
     cfg ''opacity'' =
       (case opacity p of
          None \<Rightarrow> Some (VNum (div255 (typed_get (meshColors d) (j * 4 + 3))))
        | Some a \<Rightarrow> Some (VNum (Num a))) \<and>
     heap (fst (load_mesh d entityId meshDefaults j (s, meshIds))) color2 = decoded_color d j"
proof -
  have "heap (fst (load_mesh d entityId meshDefaults j (s, meshIds))) color2 = decoded_color d j"
    using assms(6) by (simp add: load_mesh_heap load_color_heap)
  then show ?thesis
    using load_defaults_props [OF assms(1-4)]
    by (simp add: load_mesh_calls mesh_record_color mesh_record_opacity load_opacity_def
        split: option.splits)
qed

theorem mesh_defaults_replace_literal_color_witness:
  "load_defaults ex_viewer wall_defaults (Some ''w'') =
     Some ([''pickable'' \<mapsto> VBool False],
           [''color'' \<mapsto> VArray [1, 0, 0], ''opacity'' \<mapsto> VNum (Num (1 / 2))]) \<and>
   (\<exists>cfg. calls (fst (load_mesh wall_data (Some ''w'')
        [''color'' \<mapsto> VArray [1, 0, 0], ''opacity'' \<mapsto> VNum (Num (1 / 2))] 0 (state0, []))) =
       [CreateMesh cfg] \<and>
     cfg ''color'' = Some (VArray [1, 0, 0]) \<and>
     cfg ''opacity'' = Some (VNum (Num (1 / 2))) \<and>
     heap (fst (load_mesh wall_data (Some ''w'')
        [''color'' \<mapsto> VArray [1, 0, 0], ''opacity'' \<mapsto> VNum (Num (1 / 2))] 0 (state0, []))) color2 =
       [Num 1, Num 0, Num (128 / 255)])"
proof -
  let ?md = "[''color'' \<mapsto> VArray [1, 0, 0], ''opacity'' \<mapsto> VNum (Num (1 / 2))] :: jsobj"
  let ?p = "\<lparr>visible = None, pickable = Some False, colorize = Some [1, 0, 0], opacity = Some (1 / 2)\<rparr>"
  have a1: "load_defaults ex_viewer wall_defaults (Some ''w'') =
      Some ([''pickable'' \<mapsto> VBool False], ?md)"
    by (simp add: load_defaults_def ex_viewer_def wall_defaults_def js_string_def type_truthy_def)
  have a2: "metaObjects ex_viewer (js_string (Some ''w'')) = Some \<lparr>mo_type = Some ''Wall''\<rparr>"
    by (simp add: ex_viewer_def js_string_def)
  have a3: "objectDefaults wall_defaults = Some [''Wall'' \<mapsto> ?p]"
    by (simp add: wall_defaults_def)
  have a4: "[''Wall'' \<mapsto> ?p] (if type_truthy \<lparr>mo_type = Some ''Wall''\<rparr>
      then the (mo_type \<lparr>mo_type = Some ''Wall''\<rparr>) else ''DEFAULT'') = Some ?p"
    by (simp add: type_truthy_def)
  have a5: "colorize ?p \<noteq> None \<or> opacity ?p \<noteq> None"
    by simp
  have a6: "length (heap state0 color2) = 3"
    by (simp add: state0_def)
  have c: "decoded_color wall_data 0 = [Num 1, Num 0, Num (128 / 255)]"
    by (simp add: decoded_color_def wall_data_def typed_get_def div255_def)
  have s: "calls state0 = []"
    by (simp add: state0_def)
  show ?thesis
    using mesh_defaults_replace_literal_color [OF a1 a2 a3 a4 a5 a6, of wall_data 0 "[]"] a1
    unfolding c s by simp
qed

text \<open>
  C4. In a container whose three mesh offset arrays have the same length, and for the
  mesh defaults that \<^verbatim>\<open>load\<close> builds, the record of the last mesh has position, index and
  edge index slices that end at the length of the shared array, and the record of any
  other mesh has slices that end at the next offset.
\<close>

theorem load_mesh_slice_ends:
  assumes "j < length (meshPositions d)"
    and "length (meshIndices d) = length (meshPositions d)"
    and "length (meshEdgesIndices d) = length (meshPositions d)"
    and "load_defaults viewer options entityId = Some (entityDefaults, meshDefaults)"
  shows "\<exists>cfg. calls (fst (load_mesh d entityId meshDefaults j acc)) =
       calls (fst acc) @ [CreateMesh cfg] \<and>
     cfg ''positions'' = Some (VU16 (subarray (positions d)
       (Some (unat (meshPositions d ! j)))
       (Some (if j + 1 = length (meshPositions d) then length (positions d)
              else unat (meshPositions d ! (j + 1)))))) \<and>
     cfg ''indices'' = Some (VU32 (subarray (indices d)
       (Some (unat (meshIndices d ! j)))
       (Some (if j + 1 = length (meshPositions d) then length (indices d)
              else unat (meshIndices d ! (j + 1)))))) \<and>
     cfg ''edgeIndices'' = Some (VU32 (subarray (edgeIndices d)
       (Some (unat (meshEdgesIndices d ! j)))
       (Some (if j + 1 = length (meshPositions d) then length (edgeIndices d)
              else unat (meshEdgesIndices d ! (j + 1))))))"
proof -
  have l: "(int j = int (length (meshPositions d)) - 1) = (j + 1 = length (meshPositions d))"
    by auto
  show ?thesis
    using assms(1-3)
    by (auto simp: load_mesh_calls mesh_record_at [OF assms(4)] l offset_get_def typed_get_def)
qed

theorem load_mesh_slice_ends_witness:
  "(\<exists>cfg. calls (fst (load_mesh one_mesh (Some ''a'') Map.empty 0 (state0, []))) = [CreateMesh cfg] \<and>
     cfg ''positions'' = Some (VU16 (replicate 9 0)) \<and>
     cfg ''indices'' = Some (VU32 [0, 1, 2]) \<and>
     cfg ''edgeIndices'' = Some (VU32 [0, 1, 1, 2, 2, 0])) \<and>
   (\<exists>cfg. calls (fst (load_mesh two_meshes (Some ''a'') Map.empty 0 (state0, []))) = [CreateMesh cfg] \<and>
     cfg ''positions'' = Some (VU16 (replicate 9 0)) \<and>
     cfg ''indices'' = Some (VU32 [0, 1, 2]) \<and>
     cfg ''edgeIndices'' = Some (VU32 [0, 1, 1, 2, 2, 0])) \<and>
   (\<exists>cfg. calls (fst (load_mesh two_meshes (Some ''a'') Map.empty 1 (state0, []))) = [CreateMesh cfg] \<and>
     cfg ''positions'' = Some (VU16 (replicate 9 0)) \<and>
     cfg ''indices'' = Some (VU32 [0, 1, 2]) \<and>
     cfg ''edgeIndices'' = Some (VU32 [0, 1, 1, 2, 2, 0]))"
proof -
  have s: "calls (fst (state0, [])) = []"
    by (simp add: state0_def)
  have r9: "replicate 9 (0 :: 16 word) = [0, 0, 0, 0, 0, 0, 0, 0, 0]"
    by (simp add: numeral_eq_Suc)
  have r18: "replicate 18 (0 :: 16 word) = [0, 0, 0, 0, 0, 0, 0, 0, 0, 0, 0, 0, 0, 0, 0, 0, 0, 0]"
    by (simp add: numeral_eq_Suc)
  have 1: "0 < length (meshPositions one_mesh)"
      "length (meshIndices one_mesh) = length (meshPositions one_mesh)"
      "length (meshEdgesIndices one_mesh) = length (meshPositions one_mesh)"
    by (simp_all add: one_mesh_def)
  have 2: "0 < length (meshPositions two_meshes)" "1 < length (meshPositions two_meshes)"
      "length (meshIndices two_meshes) = length (meshPositions two_meshes)"
      "length (meshEdgesIndices two_meshes) = length (meshPositions two_meshes)"
    by (simp_all add: two_meshes_def)
  have f: "load_defaults ex_viewer no_options (Some ''a'') = Some (Map.empty, Map.empty)"
    by (rule load_defaults_plain) (simp_all add: ex_viewer_def no_options_def js_string_def)
  have a: "\<exists>cfg. calls (fst (load_mesh one_mesh (Some ''a'') Map.empty 0 (state0, []))) = [CreateMesh cfg] \<and>
     cfg ''positions'' = Some (VU16 (replicate 9 0)) \<and>
     cfg ''indices'' = Some (VU32 [0, 1, 2]) \<and>
     cfg ''edgeIndices'' = Some (VU32 [0, 1, 1, 2, 2, 0])"
    using load_mesh_slice_ends [OF 1 f, of "(state0, [])"]
    unfolding s by (simp add: one_mesh_def subarray_def r9)
  have b: "\<exists>cfg. calls (fst (load_mesh two_meshes (Some ''a'') Map.empty 0 (state0, []))) = [CreateMesh cfg] \<and>
     cfg ''positions'' = Some (VU16 (replicate 9 0)) \<and>
     cfg ''indices'' = Some (VU32 [0, 1, 2]) \<and>
     cfg ''edgeIndices'' = Some (VU32 [0, 1, 1, 2, 2, 0])"
    using load_mesh_slice_ends [OF 2(1) 2(3) 2(4) f, of "(state0, [])"]
    unfolding s by (simp add: two_meshes_def subarray_def r9 r18)
  have c: "\<exists>cfg. calls (fst (load_mesh two_meshes (Some ''a'') Map.empty 1 (state0, []))) = [CreateMesh cfg] \<and>
     cfg ''positions'' = Some (VU16 (replicate 9 0)) \<and>
     cfg ''indices'' = Some (VU32 [0, 1, 2]) \<and>
     cfg ''edgeIndices'' = Some (VU32 [0, 1, 1, 2, 2, 0])"
    using load_mesh_slice_ends [OF 2(2) 2(3) 2(4) f, of "(state0, [])"]
    unfolding s by (simp add: two_meshes_def subarray_def r9 r18)
  from a b c show ?thesis by blast
qed

text \<open>
  C5. When the shared positions and normals have the same length, the records that a
  decode gives to \<^verbatim>\<open>createMesh\<close> have, call by call, the positions and the normals sliced
  with the begin and the end of the mesh index of that call: the begin is
  \<open>meshPositions[j]\<close>, the end is the length of the positions for the last mesh and
  \<open>meshPositions[j+1]\<close> otherwise, the same two for both arrays, and the two slices are
  equally long.
\<close>

theorem load_normals_sliced_like_positions:
  assumes "length (positions d) = length (normals d)"
    and "calls (load viewer options d s) = calls s @ new"
  shows "(let fin = (\<lambda>j. if int j = int (length (meshPositions d)) - 1
                       then Some (length (positions d))
                       else offset_get (meshPositions d) (j + 1))
     in map (\<lambda>cfg. (cfg ''positions'', cfg ''normals'')) (mesh_records new) =
          map (\<lambda>j. (Some (VU16 (subarray (positions d) (offset_get (meshPositions d) j) (fin j))),
                     Some (VI8 (subarray (normals d) (offset_get (meshPositions d) j) (fin j)))))
            (visited_meshes viewer options d) \<and>
        (\<forall>j. length (subarray (positions d) (offset_get (meshPositions d) j) (fin j)) =
             length (subarray (normals d) (offset_get (meshPositions d) j) (fin j))) \<and>
        (\<forall>j. j < length (meshPositions d) \<longrightarrow>
             offset_get (meshPositions d) j = Some (unat (meshPositions d ! j)) \<and>
             fin j = Some (if j + 1 = length (meshPositions d) then length (positions d)
                           else unat (meshPositions d ! (j + 1)))))"
proof -
  let ?end = "\<lambda>j. if int j = int (length (meshPositions d)) - 1
                       then Some (length (positions d))
                       else offset_get (meshPositions d) (j + 1)"
  let ?f = "\<lambda>cfg :: jsobj. (cfg ''positions'', cfg ''normals'')"
  let ?g = "\<lambda>j. (Some (VU16 (subarray (positions d) (offset_get (meshPositions d) j) (?end j))),
                     Some (VI8 (subarray (normals d) (offset_get (meshPositions d) j) (?end j))))"
  have n: "new = concat (map (entity_calls viewer options d) [0..<length (entityMeshes d)])"
    using assms(2) by (simp add: load_calls)
  have fg: "?f (mesh_record d eid md j) = ?g j"
    if ld: "load_defaults viewer options eid = Some (ed, md)" for ed md eid j
    by (simp add: mesh_record_at [OF ld])
  have 1: "map ?f (mesh_records new) = map ?g (visited_meshes viewer options d)"
    unfolding n visited_meshes_def by (rule mesh_records_fields) (rule fg)
  have 2: "length (subarray (positions d) (offset_get (meshPositions d) j) (?end j)) =
      length (subarray (normals d) (offset_get (meshPositions d) j) (?end j))" for j
    by (rule subarray_length_eq [OF assms(1)])
  have 3: "offset_get (meshPositions d) j = Some (unat (meshPositions d ! j)) \<and>
      ?end j = Some (if j + 1 = length (meshPositions d) then length (positions d)
                     else unat (meshPositions d ! (j + 1)))"
    if "j < length (meshPositions d)" for j
    using that by (auto simp: offset_get_def typed_get_def)
  show ?thesis
    unfolding Let_def using 1 2 3 by blast
qed

theorem load_normals_sliced_like_positions_witness:
  "length (positions two_entities) = length (normals two_entities) \<and>
   calls (load ex_viewer no_options two_entities state0) =
     calls state0 @
       [CreateMesh (mesh_record two_entities (Some ''a'') Map.empty 0),
        CreateEntity (entity_literal two_entities (Some ''a'') 0 [''a.mesh.0'']),
        CreateMesh (mesh_record two_entities (Some ''b'') Map.empty 1),
        CreateEntity (entity_literal two_entities (Some ''b'') 1 [''b.mesh.1''])] \<and>
   visited_meshes ex_viewer no_options two_entities = [0, 1] \<and>
   map (\<lambda>cfg. (cfg ''positions'', cfg ''normals''))
     [mesh_record two_entities (Some ''a'') Map.empty 0,
      mesh_record two_entities (Some ''b'') Map.empty 1] =
     [(Some (VU16 [1, 2, 3, 4, 5, 6, 7, 8, 9]), Some (VI8 [1, 2, 3, 4, 5, 6, 7, 8, 9])),
      (Some (VU16 [10, 11, 12, 13, 14, 15, 16, 17, 18]),
       Some (VI8 [10, 11, 12, 13, 14, 15, 16, 17, 18]))]"
proof -
  let ?new = "[CreateMesh (mesh_record two_entities (Some ''a'') Map.empty 0),
        CreateEntity (entity_literal two_entities (Some ''a'') 0 [''a.mesh.0'']),
        CreateMesh (mesh_record two_entities (Some ''b'') Map.empty 1),
        CreateEntity (entity_literal two_entities (Some ''b'') 1 [''b.mesh.1''])]"
  have l: "length (positions two_entities) = length (normals two_entities)"
    by (simp add: two_entities_def)
  have n: "[0..<length (entityMeshes two_entities)] = [0, Suc 0]"
    by (simp add: two_entities_def upt_rec)
  have r: "mesh_range two_entities 0 = [0]" "mesh_range two_entities (Suc 0) = [Suc 0]"
    by (simp_all add: mesh_range_def mesh_begin_def mesh_jlen_def offset_get_def typed_get_def
        two_entities_def)
  have e: "typed_get (entityIDs two_entities) 0 = Some ''a''"
      "typed_get (entityIDs two_entities) (Suc 0) = Some ''b''"
    by (simp_all add: typed_get_def two_entities_def)
  have f: "load_defaults ex_viewer no_options (Some ''a'') = Some (Map.empty, Map.empty)"
      "load_defaults ex_viewer no_options (Some ''b'') = Some (Map.empty, Map.empty)"
    by (rule load_defaults_plain; simp add: ex_viewer_def no_options_def js_string_def)+
  have c: "calls (load ex_viewer no_options two_entities state0) = calls state0 @ ?new"
    by (simp add: load_calls n entity_calls_def Let_def e f r mesh_id_a0 mesh_id_b
        utils_apply_empty)
  have v: "visited_meshes ex_viewer no_options two_entities = [0, 1]"
    by (simp add: visited_meshes_def n e f r)
  have m: "mesh_records ?new =
      [mesh_record two_entities (Some ''a'') Map.empty 0,
       mesh_record two_entities (Some ''b'') Map.empty 1]"
    by simp
  have g: "map (\<lambda>j. (Some (VU16 (subarray (positions two_entities)
          (offset_get (meshPositions two_entities) j)
          (if int j = int (length (meshPositions two_entities)) - 1
           then Some (length (positions two_entities))
           else offset_get (meshPositions two_entities) (j + 1)))),
        Some (VI8 (subarray (normals two_entities)
          (offset_get (meshPositions two_entities) j)
          (if int j = int (length (meshPositions two_entities)) - 1
           then Some (length (positions two_entities))
           else offset_get (meshPositions two_entities) (j + 1)))))) [0, 1] =
     [(Some (VU16 [1, 2, 3, 4, 5, 6, 7, 8, 9]), Some (VI8 [1, 2, 3, 4, 5, 6, 7, 8, 9])),
      (Some (VU16 [10, 11, 12, 13, 14, 15, 16, 17, 18]),
       Some (VI8 [10, 11, 12, 13, 14, 15, 16, 17, 18]))]"
    by (simp add: two_entities_def subarray_def offset_get_def typed_get_def)
  have "map (\<lambda>cfg. (cfg ''positions'', cfg ''normals'')) (mesh_records ?new) =
     [(Some (VU16 [1, 2, 3, 4, 5, 6, 7, 8, 9]), Some (VI8 [1, 2, 3, 4, 5, 6, 7, 8, 9])),
      (Some (VU16 [10, 11, 12, 13, 14, 15, 16, 17, 18]),
       Some (VI8 [10, 11, 12, 13, 14, 15, 16, 17, 18]))]"
    using load_normals_sliced_like_positions [OF l c] unfolding Let_def v g by blast
  then show ?thesis
    using l c v unfolding m by blast
qed

text \<open>
  C6. One pass of the entity loop leaves the state as it is (no call, no mesh decoded) for
  an entity with a meta object of a known type exactly when the type is in the exclude
  map, or an include map is set and the type is not in it; and for an entity without a
  meta object exactly when \<^verbatim>\<open>excludeUnclassifiedObjects\<close> is set. A type is known when it
  is a string that is not empty; an entity whose meta object has no known type is never
  left out.
\<close>

theorem load_entity_filter:
  "(metaObjects viewer (js_string (typed_get (entityIDs d) i)) = Some mo \<and>
    mo_type mo = Some t \<and> t \<noteq> [] \<longrightarrow>
      (load_entity viewer options d i s = s) =
        ((\<exists>ex. excludeTypesMap options = Some ex \<and> ex t) \<or>
         (\<exists>inc. includeTypesMap options = Some inc \<and> \<not> inc t))) \<and>
   (metaObjects viewer (js_string (typed_get (entityIDs d) i)) = None \<longrightarrow>
      (load_entity viewer options d i s = s) = excludeUnclassifiedObjects options) \<and>
   (metaObjects viewer (js_string (typed_get (entityIDs d) i)) = Some mo \<and>
    \<not> type_truthy mo \<longrightarrow> load_entity viewer options d i s \<noteq> s)"
  by (simp add: load_entity_skip_iff load_defaults_classified load_defaults_unclassified
      load_defaults_untyped)

theorem load_entity_filter_witness:
  "metaObjects ex_viewer (js_string (typed_get (entityIDs four_entities) 0)) =
     Some \<lparr>mo_type = Some ''Wall''\<rparr> \<and>
   metaObjects ex_viewer (js_string (typed_get (entityIDs four_entities) 1)) =
     Some \<lparr>mo_type = Some ''Door''\<rparr> \<and>
   metaObjects ex_viewer (js_string (typed_get (entityIDs four_entities) 2)) = None \<and>
   metaObjects ex_viewer (js_string (typed_get (entityIDs four_entities) 3)) =
     Some \<lparr>mo_type = None\<rparr> \<and>
   load_entity ex_viewer excl_wall four_entities 0 state0 = state0 \<and>
   load_entity ex_viewer excl_wall four_entities 1 state0 \<noteq> state0 \<and>
   load_entity ex_viewer incl_door four_entities 0 state0 = state0 \<and>
   load_entity ex_viewer incl_door four_entities 1 state0 \<noteq> state0 \<and>
   load_entity ex_viewer incl_door four_entities 2 state0 \<noteq> state0 \<and>
   load_entity ex_viewer incl_door_only four_entities 2 state0 = state0 \<and>
   load_entity ex_viewer incl_door_only four_entities 3 state0 \<noteq> state0"
proof -
  have w: "metaObjects ex_viewer (js_string (typed_get (entityIDs four_entities) 0)) =
      Some \<lparr>mo_type = Some ''Wall''\<rparr>"
    by (simp add: ex_viewer_def js_string_def typed_get_def four_entities_def)
  have d: "metaObjects ex_viewer (js_string (typed_get (entityIDs four_entities) 1)) =
      Some \<lparr>mo_type = Some ''Door''\<rparr>"
    by (simp add: ex_viewer_def js_string_def typed_get_def four_entities_def)
  have x: "metaObjects ex_viewer (js_string (typed_get (entityIDs four_entities) 2)) = None"
    by (simp add: ex_viewer_def js_string_def typed_get_def four_entities_def)
  have u: "metaObjects ex_viewer (js_string (typed_get (entityIDs four_entities) 3)) =
      Some \<lparr>mo_type = None\<rparr>"
    by (simp add: ex_viewer_def js_string_def typed_get_def four_entities_def)
  have 1: "load_entity ex_viewer excl_wall four_entities 0 state0 = state0"
    using load_entity_filter [of ex_viewer four_entities 0 "\<lparr>mo_type = Some ''Wall''\<rparr>" "''Wall''"
        excl_wall state0] w
    by (simp add: excl_wall_def)
  have 2: "load_entity ex_viewer excl_wall four_entities 1 state0 \<noteq> state0"
    using load_entity_filter [of ex_viewer four_entities 1 "\<lparr>mo_type = Some ''Door''\<rparr>" "''Door''"
        excl_wall state0] d
    by (simp add: excl_wall_def)
  have 3: "load_entity ex_viewer incl_door four_entities 0 state0 = state0"
    using load_entity_filter [of ex_viewer four_entities 0 "\<lparr>mo_type = Some ''Wall''\<rparr>" "''Wall''"
        incl_door state0] w
    by (simp add: incl_door_def)
  have 4: "load_entity ex_viewer incl_door four_entities 1 state0 \<noteq> state0"
    using load_entity_filter [of ex_viewer four_entities 1 "\<lparr>mo_type = Some ''Door''\<rparr>" "''Door''"
        incl_door state0] d
    by (simp add: incl_door_def)
  have 5: "load_entity ex_viewer incl_door four_entities 2 state0 \<noteq> state0"
    using load_entity_filter [of ex_viewer four_entities 2 _ _ incl_door state0] x
    by (simp add: incl_door_def)
  have 6: "load_entity ex_viewer incl_door_only four_entities 2 state0 = state0"
    using load_entity_filter [of ex_viewer four_entities 2 _ _ incl_door_only state0] x
    by (simp add: incl_door_only_def)
  have 7: "load_entity ex_viewer incl_door_only four_entities 3 state0 \<noteq> state0"
    using load_entity_filter [of ex_viewer four_entities 3 "\<lparr>mo_type = None\<rparr>" _
        incl_door_only state0] u
    by (simp add: type_truthy_def)
  from w d x u 1 2 3 4 5 6 7 show ?thesis by blast
qed

text \<open>
  For \<open>entityMeshes = [0, 0, 2]\<close> the loop of entity 1 runs through the meshes 0 and 1:
  two calls of \<^verbatim>\<open>createMesh\<close>, and two mesh identifiers in the record of the entity.
\<close>

theorem load_entity_zero_meshes_cex:
  "entityMeshes zero_mesh = [0, 0, 2] \<and>
   calls (load_entity ex_viewer no_options zero_mesh 1 state0) =
     [CreateMesh (mesh_record zero_mesh (Some ''b'') Map.empty 0),
      CreateMesh (mesh_record zero_mesh (Some ''b'') Map.empty 1),
      CreateEntity (entity_literal zero_mesh (Some ''b'') 1 [''b.mesh.0'', ''b.mesh.1''])]"
proof -
  have r: "mesh_range zero_mesh (Suc 0) = [0, Suc 0]"
    by (simp add: mesh_range_def mesh_begin_def mesh_jlen_def offset_get_def typed_get_def
        zero_mesh_def upt_rec)
  have e: "typed_get (entityIDs zero_mesh) (Suc 0) = Some ''b''"
    by (simp add: typed_get_def zero_mesh_def)
  have f: "load_defaults ex_viewer no_options (Some ''b'') = Some (Map.empty, Map.empty)"
    by (rule load_defaults_plain) (simp_all add: ex_viewer_def no_options_def js_string_def)
  have "entity_calls ex_viewer no_options zero_mesh 1 =
     [CreateMesh (mesh_record zero_mesh (Some ''b'') Map.empty 0),
      CreateMesh (mesh_record zero_mesh (Some ''b'') Map.empty 1),
      CreateEntity (entity_literal zero_mesh (Some ''b'') 1 [''b.mesh.0'', ''b.mesh.1''])]"
    by (simp add: entity_calls_def Let_def e f r mesh_id_b utils_apply_empty)
  moreover have "calls state0 = []"
    by (simp add: state0_def)
  moreover have "entityMeshes zero_mesh = [0, 0, 2]"
    by (simp add: zero_mesh_def)
  ultimately show ?thesis
    by (simp add: load_entity_calls)
qed

text \<open>
  C7. The claim holds but for its example. An entity \<open>i\<close> that passes the filter and has
  \<open>entityMeshes[i] = entityMeshes[i+1]\<close> gets no call of \<^verbatim>\<open>createMesh\<close> and one call of
  \<^verbatim>\<open>createEntity\<close>, with an empty list of mesh identifiers. For \<open>entityMeshes = [0, 0, 2]\<close>
  this is entity 0, not entity 1.
\<close>

theorem load_entity_zero_meshes:
  assumes "i + 1 < length (entityMeshes d)"
    and "entityMeshes d ! i = entityMeshes d ! (i + 1)"
    and "load_defaults viewer options (typed_get (entityIDs d) i) = Some (entityDefaults, meshDefaults)"
  shows "\<exists>cfg. calls (load_entity viewer options d i s) = calls s @ [CreateEntity cfg] \<and>
     cfg ''meshIds'' = Some (VStrs []) \<and>
     heap (load_entity viewer options d i s) = heap s"
proof -
  have r: "mesh_range d i = []"
    using assms(1,2)
    by (simp add: mesh_range_def mesh_begin_def mesh_jlen_def offset_get_def typed_get_def Let_def)
  have "calls (load_entity viewer options d i s) = calls s @
      [CreateEntity (utils_apply entityDefaults (entity_literal d (typed_get (entityIDs d) i) i []))]"
    by (simp add: load_entity_calls entity_calls_def Let_def assms(3) r)
  moreover have "utils_apply entityDefaults (entity_literal d (typed_get (entityIDs d) i) i [])
      ''meshIds'' = Some (VStrs [])"
    by (simp add: utils_apply_none load_defaults_keys(2) [OF assms(3)] entity_literal_meshIds)
  moreover have "heap (load_entity viewer options d i s) = heap s"
  proof -
    have "mesh_begin d i = Some (unat (entityMeshes d ! i))"
        and "mesh_jlen d i = Some (unat (entityMeshes d ! i))"
      using assms(1,2)
      by (simp_all add: mesh_begin_def mesh_jlen_def offset_get_def typed_get_def Let_def)
    then show ?thesis
      by (simp add: load_entity_def assms(3) load_meshes_empty Let_def)
  qed
  ultimately show ?thesis
    by blast
qed

theorem load_entity_zero_meshes_witness:
  "entityMeshes zero_mesh = [0, 0, 2] \<and>
   load_defaults ex_viewer no_options (typed_get (entityIDs zero_mesh) 0) =
     Some (Map.empty, Map.empty) \<and>
   (\<exists>cfg. calls (load_entity ex_viewer no_options zero_mesh 0 state0) = [CreateEntity cfg] \<and>
     cfg ''meshIds'' = Some (VStrs []) \<and>
     heap (load_entity ex_viewer no_options zero_mesh 0 state0) = heap state0)"
proof -
  have m: "entityMeshes zero_mesh = [0, 0, 2]"
    by (simp add: zero_mesh_def)
  have 1: "0 + 1 < length (entityMeshes zero_mesh)"
    by (simp add: m)
  have 2: "entityMeshes zero_mesh ! 0 = entityMeshes zero_mesh ! (0 + 1)"
    by (simp add: m)
  have 3: "load_defaults ex_viewer no_options (typed_get (entityIDs zero_mesh) 0) =
      Some (Map.empty, Map.empty)"
    by (rule load_defaults_plain)
       (simp_all add: ex_viewer_def no_options_def js_string_def typed_get_def zero_mesh_def)
  have s: "calls state0 = []"
    by (simp add: state0_def)
  show ?thesis
    using load_entity_zero_meshes [OF 1 2 3, of state0] m 3
    unfolding s by simp
qed

text \<open>
  C8. The calls of a decode are, for the entities in ascending order, the calls of each
  entity that passes the filter: one \<^verbatim>\<open>createMesh\<close> for each mesh index of its range in
  ascending order, then its \<^verbatim>\<open>createEntity\<close>. The calls are a function of the inputs. For
  one entity with \<open>entityMeshes = [0]\<close> and \<open>meshPositions = [0]\<close> they are one
  \<^verbatim>\<open>createMesh\<close> followed by one \<^verbatim>\<open>createEntity\<close>.
\<close>

theorem load_call_order:
  "calls (load viewer options d s) =
     calls s @ concat (map (entity_calls viewer options d) [0..<length (entityMeshes d)]) \<and>
   (\<forall>i. \<exists>j jlen. mesh_range d i = [j..<jlen]) \<and>
   (entityMeshes d = [0] \<and> meshPositions d = [0] \<and>
    load_defaults viewer options (typed_get (entityIDs d) 0) \<noteq> None \<longrightarrow>
      (\<exists>m e. calls (load viewer options d s) = calls s @ [CreateMesh m, CreateEntity e]))"
proof -
  have a: "\<exists>j jlen. mesh_range d i = [j..<jlen]" for i
  proof (cases "mesh_begin d i")
    case None
    then have "mesh_range d i = [0..<0]"
      by (simp add: mesh_range_def)
    then show ?thesis by blast
  next
    case (Some j)
    show ?thesis
    proof (cases "mesh_jlen d i")
      case None
      then have "mesh_range d i = [0..<0]"
        using Some by (simp add: mesh_range_def)
      then show ?thesis by blast
    next
      case (Some jlen)
      then have "mesh_range d i = [j..<jlen]"
        using \<open>mesh_begin d i = Some j\<close> by (simp add: mesh_range_def)
      then show ?thesis by blast
    qed
  qed
  have b: "\<exists>m e. calls (load viewer options d s) = calls s @ [CreateMesh m, CreateEntity e]"
    if em: "entityMeshes d = [0]"
      and ld: "load_defaults viewer options (typed_get (entityIDs d) 0) \<noteq> None"
  proof -
    have r: "mesh_range d 0 = [0]"
      using em
      by (simp add: mesh_range_def mesh_begin_def mesh_jlen_def offset_get_def typed_get_def)
    obtain ed md where "load_defaults viewer options (typed_get (entityIDs d) 0) = Some (ed, md)"
      using ld by auto
    then show ?thesis
      using em by (simp add: load_calls entity_calls_def Let_def r)
  qed
  show ?thesis
    using a b by (simp add: load_calls)
qed

theorem load_call_order_witness:
  "entityMeshes one_mesh = [0] \<and> meshPositions one_mesh = [0] \<and>
   load_defaults ex_viewer no_options (typed_get (entityIDs one_mesh) 0) \<noteq> None \<and>
   (\<exists>m e. calls (load ex_viewer no_options one_mesh state0) = [CreateMesh m, CreateEntity e])"
proof -
  have 1: "entityMeshes one_mesh = [0]" "meshPositions one_mesh = [0]"
    by (simp_all add: one_mesh_def)
  have 3: "load_defaults ex_viewer no_options (typed_get (entityIDs one_mesh) 0) \<noteq> None"
    by (simp add: load_defaults_def ex_viewer_def no_options_def js_string_def typed_get_def
        one_mesh_def)
  have s: "calls state0 = []"
    by (simp add: state0_def)
  have "\<exists>m e. calls (load ex_viewer no_options one_mesh state0) =
      calls state0 @ [CreateMesh m, CreateEntity e]"
    using load_call_order [of ex_viewer no_options one_mesh state0] 1 3 by blast
  then show ?thesis
    using 1 3 unfolding s by simp
qed

text \<open>
  C9. For a mesh \<open>j\<close> whose four colour bytes exist, the buffer that \<^verbatim>\<open>decompressColor\<close>
  returns holds the bytes \<open>4j\<close>, \<open>4j+1\<close> and \<open>4j+2\<close> of \<open>meshColors\<close> divided by 255, the
  opacity is the byte \<open>4j+3\<close> divided by 255, and the four values are in \<open>[0, 1]\<close>.
\<close>

theorem decoded_color_and_opacity:
  assumes "4 * j + 3 < length (meshColors d)" and "length (h color2) = 3"
  shows "snd (load_color h d j) (fst (load_color h d j)) =
       [Num (real (unat (meshColors d ! (4 * j))) / 255),
        Num (real (unat (meshColors d ! (4 * j + 1))) / 255),
        Num (real (unat (meshColors d ! (4 * j + 2))) / 255)] \<and>
     load_opacity d j = Num (real (unat (meshColors d ! (4 * j + 3))) / 255) \<and>
     list_all in_unit (snd (load_color h d j) (fst (load_color h d j))) \<and>
     in_unit (load_opacity d j)"
proof -
  have g: "typed_get (meshColors d) (4 * j + k) = Some (meshColors d ! (4 * j + k))" if "k \<le> 3" for k
    using assms(1) that by (simp add: typed_get_def)
  have c: "snd (load_color h d j) (fst (load_color h d j)) = decoded_color d j"
    using assms(2) by (simp add: load_color_heap)
  have o: "load_opacity d j = div255 (Some (meshColors d ! (4 * j + 3)))"
    using g [of 3] by (simp add: load_opacity_def mult.commute)
  have dc: "decoded_color d j =
      [div255 (Some (meshColors d ! (4 * j))), div255 (Some (meshColors d ! (4 * j + 1))),
       div255 (Some (meshColors d ! (4 * j + 2)))]"
    using g [of 0] g [of 1] g [of 2] by (simp add: decoded_color_def)
  have "list_all in_unit (decoded_color d j)"
    unfolding dc by (simp add: div255_in_unit)
  moreover have "in_unit (load_opacity d j)"
    unfolding o by (rule div255_in_unit)
  ultimately show ?thesis
    unfolding c by (simp add: dc o div255_def)
qed

theorem decoded_color_and_opacity_witness:
  "meshColors one_mesh = [255, 0, 128, 64] \<and>
   snd (load_color (heap state0) one_mesh 0) (fst (load_color (heap state0) one_mesh 0)) =
     [Num 1, Num 0, Num (128 / 255)] \<and>
   load_opacity one_mesh 0 = Num (64 / 255) \<and>
   (50196 / 100000 :: real) < 128 / 255 \<and> (128 / 255 :: real) < 50197 / 100000 \<and>
   (2509 / 10000 :: real) < 64 / 255 \<and> (64 / 255 :: real) < 2510 / 10000 \<and>
   list_all in_unit (snd (load_color (heap state0) one_mesh 0) (fst (load_color (heap state0) one_mesh 0))) \<and>
   in_unit (load_opacity one_mesh 0)"
proof -
  have m: "meshColors one_mesh = [255, 0, 128, 64]"
    by (simp add: one_mesh_def)
  have 1: "4 * 0 + 3 < length (meshColors one_mesh)"
    by (simp add: m)
  have 2: "length (heap state0 color2) = 3"
    by (simp add: state0_def)
  show ?thesis
    using decoded_color_and_opacity [of 0 one_mesh "heap state0", OF 1 2] m by simp
qed

text \<open>
  A wall and a door under \<open>wall_defaults\<close>: the record of the wall's mesh has the default
  \<open>[1, 0, 0]\<close> as its colour, the record of the door's mesh has the buffer. The two
  records do not have the same colour object.
\<close>

theorem decompressColor_shared_buffer_cex:
  "calls (load ex_viewer wall_defaults wall_and_door state0) =
     [CreateMesh (mesh_record wall_and_door (Some ''w'')
        [''color'' \<mapsto> VArray [1, 0, 0], ''opacity'' \<mapsto> VNum (Num (1 / 2))] 0),
      CreateEntity (utils_apply [''pickable'' \<mapsto> VBool False]
        (entity_literal wall_and_door (Some ''w'') 0 [''w.mesh.0''])),
      CreateMesh (mesh_record wall_and_door (Some ''d'') Map.empty 1),
      CreateEntity (entity_literal wall_and_door (Some ''d'') 1 [''d.mesh.1''])] \<and>
   mesh_record wall_and_door (Some ''w'')
      [''color'' \<mapsto> VArray [1, 0, 0], ''opacity'' \<mapsto> VNum (Num (1 / 2))] 0 ''color'' =
     Some (VArray [1, 0, 0]) \<and>
   mesh_record wall_and_door (Some ''d'') Map.empty 1 ''color'' = Some (VRef color2) \<and>
   mesh_record wall_and_door (Some ''w'')
      [''color'' \<mapsto> VArray [1, 0, 0], ''opacity'' \<mapsto> VNum (Num (1 / 2))] 0 ''color'' \<noteq>
     mesh_record wall_and_door (Some ''d'') Map.empty 1 ''color''"
proof -
  let ?md = "[''color'' \<mapsto> VArray [1, 0, 0], ''opacity'' \<mapsto> VNum (Num (1 / 2))] :: jsobj"
  have c: "calls (load ex_viewer wall_defaults wall_and_door state0) =
     [CreateMesh (mesh_record wall_and_door (Some ''w'') ?md 0),
      CreateEntity (utils_apply [''pickable'' \<mapsto> VBool False]
        (entity_literal wall_and_door (Some ''w'') 0 [''w.mesh.0''])),
      CreateMesh (mesh_record wall_and_door (Some ''d'') Map.empty 1),
      CreateEntity (entity_literal wall_and_door (Some ''d'') 1 [''d.mesh.1''])]"
    using wall_and_door_calls by (simp add: state0_def)
  have k: "mesh_record wall_and_door (Some ''w'') ?md 0 ''color'' = Some (VArray [1, 0, 0])"
    by (simp add: mesh_record_color)
  have l: "mesh_record wall_and_door (Some ''d'') Map.empty 1 ''color'' = Some (VRef color2)"
    by (simp add: mesh_record_color)
  from c k l show ?thesis
    by simp
qed

text \<open>
  C10. The claim holds of \<^verbatim>\<open>decompressColor\<close>, and fails of the records of an entity whose
  type has a \<^verbatim>\<open>colorize\<close> default. As amended: two calls of \<^verbatim>\<open>decompressColor\<close> return the
  same buffer, which after the second call holds the second colour. Every call of
  \<^verbatim>\<open>createMesh\<close> of a decode is made for a mesh of the range of an entity that passes the
  filter, with the merge of the mesh defaults of that entity and a literal whose colour is
  this buffer; the record has the buffer as its colour when the mesh defaults have no
  colour, and the colour of the mesh defaults otherwise. After the decode the buffer holds
  the colour of the mesh that was decoded last.
\<close>

theorem decompressColor_shared_buffer:
  assumes "length (h color2) = 3" and "length (heap s color2) = 3"
    and "calls (load viewer options d s) = calls s @ new"
  shows "fst (decompressColor h c1) = fst (decompressColor (snd (decompressColor h c1)) c2) \<and>
     snd (decompressColor (snd (decompressColor h c1)) c2) (fst (decompressColor h c1)) =
       [div255 (typed_get c2 0), div255 (typed_get c2 1), div255 (typed_get c2 2)] \<and>
     (\<forall>cfg. CreateMesh cfg \<in> set new \<longrightarrow>
        (\<exists>i entityDefaults meshDefaults j. i < length (entityMeshes d) \<and>
           load_defaults viewer options (typed_get (entityIDs d) i) =
             Some (entityDefaults, meshDefaults) \<and>
           j \<in> set (mesh_range d i) \<and>
           cfg = utils_apply meshDefaults
             (mesh_literal d (mesh_id (typed_get (entityIDs d) i) j) j
                (fst (decompressColor h c1)) (load_opacity d j)) \<and>
           mesh_literal d (mesh_id (typed_get (entityIDs d) i) j) j
             (fst (decompressColor h c1)) (load_opacity d j) ''color'' =
             Some (VRef (fst (decompressColor h c1))) \<and>
           cfg ''color'' =
             (case meshDefaults ''color'' of
                None \<Rightarrow> Some (VRef (fst (decompressColor h c1)))
              | Some v \<Rightarrow> Some v))) \<and>
     (visited_meshes viewer options d \<noteq> [] \<longrightarrow>
        heap (load viewer options d s) (fst (decompressColor h c1)) =
          decoded_color d (last (visited_meshes viewer options d)))"
proof -
  have 1: "decompressColor h c1 =
      (color2, h(color2 := [div255 (typed_get c1 0), div255 (typed_get c1 1), div255 (typed_get c1 2)]))"
    using assms(1) by (rule decompressColor_heap)
  have 2: "decompressColor (snd (decompressColor h c1)) c2 =
      (color2, (snd (decompressColor h c1))
         (color2 := [div255 (typed_get c2 0), div255 (typed_get c2 1), div255 (typed_get c2 2)]))"
    by (rule decompressColor_heap) (simp add: 1)
  have 3: "\<exists>i entityDefaults meshDefaults j. i < length (entityMeshes d) \<and>
           load_defaults viewer options (typed_get (entityIDs d) i) =
             Some (entityDefaults, meshDefaults) \<and>
           j \<in> set (mesh_range d i) \<and>
           cfg = utils_apply meshDefaults
             (mesh_literal d (mesh_id (typed_get (entityIDs d) i) j) j color2 (load_opacity d j)) \<and>
           mesh_literal d (mesh_id (typed_get (entityIDs d) i) j) j color2 (load_opacity d j)
             ''color'' = Some (VRef color2) \<and>
           cfg ''color'' =
             (case meshDefaults ''color'' of None \<Rightarrow> Some (VRef color2) | Some v \<Rightarrow> Some v)"
    if mem: "CreateMesh cfg \<in> set new" for cfg
  proof -
    obtain i ed md j where i: "i < length (entityMeshes d)"
        and ld: "load_defaults viewer options (typed_get (entityIDs d) i) = Some (ed, md)"
        and j: "j \<in> set (mesh_range d i)"
        and c: "cfg = mesh_record d (typed_get (entityIDs d) i) md j"
      using load_new_mesh_call [OF assms(3) mem] by blast
    have "cfg = utils_apply md
        (mesh_literal d (mesh_id (typed_get (entityIDs d) i) j) j color2 (load_opacity d j))"
      unfolding c by (simp add: mesh_record_def)
    moreover have "mesh_literal d (mesh_id (typed_get (entityIDs d) i) j) j color2
        (load_opacity d j) ''color'' = Some (VRef color2)"
      by (rule mesh_literal_at)
    moreover have "cfg ''color'' =
        (case md ''color'' of None \<Rightarrow> Some (VRef color2) | Some v \<Rightarrow> Some v)"
      unfolding c by (rule mesh_record_color)
    ultimately show ?thesis
      using i ld j by blast
  qed
  have 4: "heap (load viewer options d s) color2 =
      decoded_color d (last (visited_meshes viewer options d))"
    if "visited_meshes viewer options d \<noteq> []"
    using that by (simp add: load_heap [OF assms(2)] heap_after_def)
  have f: "fst (decompressColor h c1) = color2"
    by (simp add: 1)
  have a: "fst (decompressColor (snd (decompressColor h c1)) c2) = color2"
    by (simp add: 2)
  have b: "snd (decompressColor (snd (decompressColor h c1)) c2) color2 =
      [div255 (typed_get c2 0), div255 (typed_get c2 1), div255 (typed_get c2 2)]"
    by (simp add: 2)
  show ?thesis
    unfolding f a b using 3 4 by blast
qed

theorem decompressColor_shared_buffer_witness:
  "length (heap state0 color2) = 3 \<and>
   calls (load ex_viewer wall_defaults wall_and_door state0) =
     calls state0 @
       [CreateMesh (mesh_record wall_and_door (Some ''w'')
          [''color'' \<mapsto> VArray [1, 0, 0], ''opacity'' \<mapsto> VNum (Num (1 / 2))] 0),
        CreateEntity (utils_apply [''pickable'' \<mapsto> VBool False]
          (entity_literal wall_and_door (Some ''w'') 0 [''w.mesh.0''])),
        CreateMesh (mesh_record wall_and_door (Some ''d'') Map.empty 1),
        CreateEntity (entity_literal wall_and_door (Some ''d'') 1 [''d.mesh.1''])] \<and>
   fst (decompressColor (heap state0) [255, 0, 128]) = color2 \<and>
   fst (decompressColor (snd (decompressColor (heap state0) [255, 0, 128])) [0, 255, 0]) = color2 \<and>
   snd (decompressColor (snd (decompressColor (heap state0) [255, 0, 128])) [0, 255, 0]) color2 =
     [Num 0, Num 1, Num 0] \<and>
   (\<exists>i entityDefaults meshDefaults j. i < length (entityMeshes wall_and_door) \<and>
      load_defaults ex_viewer wall_defaults (typed_get (entityIDs wall_and_door) i) =
        Some (entityDefaults, meshDefaults) \<and>
      j \<in> set (mesh_range wall_and_door i) \<and>
      mesh_record wall_and_door (Some ''w'')
          [''color'' \<mapsto> VArray [1, 0, 0], ''opacity'' \<mapsto> VNum (Num (1 / 2))] 0 =
        utils_apply meshDefaults
          (mesh_literal wall_and_door (mesh_id (typed_get (entityIDs wall_and_door) i) j) j
             color2 (load_opacity wall_and_door j)) \<and>
      mesh_record wall_and_door (Some ''w'')
          [''color'' \<mapsto> VArray [1, 0, 0], ''opacity'' \<mapsto> VNum (Num (1 / 2))] 0 ''color'' =
        (case meshDefaults ''color'' of None \<Rightarrow> Some (VRef color2) | Some v \<Rightarrow> Some v)) \<and>
   mesh_record wall_and_door (Some ''w'')
      [''color'' \<mapsto> VArray [1, 0, 0], ''opacity'' \<mapsto> VNum (Num (1 / 2))] 0 ''color'' =
     Some (VArray [1, 0, 0]) \<and>
   mesh_record wall_and_door (Some ''d'') Map.empty 1 ''color'' = Some (VRef color2) \<and>
   visited_meshes ex_viewer wall_defaults wall_and_door = [0, 1] \<and>
   heap (load ex_viewer wall_defaults wall_and_door state0) color2 = [Num 0, Num 1, Num 0]"
proof -
  let ?md = "[''color'' \<mapsto> VArray [1, 0, 0], ''opacity'' \<mapsto> VNum (Num (1 / 2))] :: jsobj"
  let ?w = "mesh_record wall_and_door (Some ''w'') ?md 0"
  let ?new = "[CreateMesh ?w,
        CreateEntity (utils_apply [''pickable'' \<mapsto> VBool False]
          (entity_literal wall_and_door (Some ''w'') 0 [''w.mesh.0''])),
        CreateMesh (mesh_record wall_and_door (Some ''d'') Map.empty 1),
        CreateEntity (entity_literal wall_and_door (Some ''d'') 1 [''d.mesh.1''])]"
  have 1: "length (heap state0 color2) = 3"
    by (simp add: state0_def)
  have c: "calls (load ex_viewer wall_defaults wall_and_door state0) = calls state0 @ ?new"
    by (rule wall_and_door_calls)
  have v: "visited_meshes ex_viewer wall_defaults wall_and_door = [0, 1]"
    by (rule wall_and_door_visited)
  have d: "decoded_color wall_and_door 1 = [Num 0, Num 1, Num 0]"
    by (simp add: decoded_color_def wall_and_door_def typed_get_def div255_def)
  have t: "[div255 (typed_get [0, 255, 0] 0), div255 (typed_get [0, 255, 0] 1),
      div255 (typed_get [0, 255, 0] 2)] = [Num 0, Num 1, Num 0]"
    by (simp add: typed_get_def div255_def)
  have m: "CreateMesh ?w \<in> set ?new"
    by simp
  have k: "fst (decompressColor (heap state0) [255, 0, 128]) = color2"
    by (simp add: decompressColor_def Let_def)
  note inst = decompressColor_shared_buffer [where h = "heap state0" and s = state0
      and ?c1.0 = "[255, 0, 128]" and ?c2.0 = "[0, 255, 0]", OF 1 1 c]
  have a: "fst (decompressColor (snd (decompressColor (heap state0) [255, 0, 128])) [0, 255, 0]) = color2"
    using inst k by simp
  have b: "snd (decompressColor (snd (decompressColor (heap state0) [255, 0, 128])) [0, 255, 0]) color2 =
     [Num 0, Num 1, Num 0]"
    using inst unfolding k t by blast
  have g: "\<exists>i entityDefaults meshDefaults j. i < length (entityMeshes wall_and_door) \<and>
      load_defaults ex_viewer wall_defaults (typed_get (entityIDs wall_and_door) i) =
        Some (entityDefaults, meshDefaults) \<and>
      j \<in> set (mesh_range wall_and_door i) \<and>
      ?w = utils_apply meshDefaults
          (mesh_literal wall_and_door (mesh_id (typed_get (entityIDs wall_and_door) i) j) j
             color2 (load_opacity wall_and_door j)) \<and>
      ?w ''color'' =
        (case meshDefaults ''color'' of None \<Rightarrow> Some (VRef color2) | Some v \<Rightarrow> Some v)"
    using inst m unfolding k by blast
  have w: "?w ''color'' = Some (VArray [1, 0, 0])"
    by (simp add: mesh_record_color)
  have o: "mesh_record wall_and_door (Some ''d'') Map.empty 1 ''color'' = Some (VRef color2)"
    by (simp add: mesh_record_color)
  have h: "heap (load ex_viewer wall_defaults wall_and_door state0) color2 = [Num 0, Num 1, Num 0]"
    using inst unfolding k v d [symmetric] by simp
  from 1 c k a b g w o v h show ?thesis
    by blast
qed

end
